theory Spec2Isabelle
  imports Main "HOL-Library.AList"
begin

section \<open>Python values and string primitives\<close>

text \<open>
  The pipeline lives in \<^verbatim>\<open>kraken_abundance_pipeline.py\<close>. Strings are modelled as
  \<^typ>\<open>string\<close>, one \<^typ>\<open>char\<close> per code point, so the code points are those up
  to U+00FF. Python's unbounded integers are \<^typ>\<open>int\<close>.
\<close>

abbreviation TAB :: char where "TAB \<equiv> CHR 0x09"
abbreviation NL :: char where "NL \<equiv> CHR 0x0A"
abbreviation CR :: char where "CR \<equiv> CHR 0x0D"

text \<open>
  White space as \<^verbatim>\<open>str.strip\<close> and \<^verbatim>\<open>str.isspace\<close> see it: the characters up to
  U+00FF that Unicode counts as white space.
\<close>

definition is_space :: "char \<Rightarrow> bool" where
  "is_space c \<longleftrightarrow> c \<in> {CHR 0x09, CHR 0x0A, CHR 0x0B, CHR 0x0C, CHR 0x0D,
                             CHR 0x1C, CHR 0x1D, CHR 0x1E, CHR 0x1F, CHR 0x20,
                             CHR 0x85, CHR 0xA0}"

text \<open>\<^verbatim>\<open>s.strip()\<close>: white space is removed at both ends.\<close>

definition py_strip :: "string \<Rightarrow> string" where
  "py_strip s = rev (dropWhile is_space (rev (dropWhile is_space s)))"

text \<open>
  \<^verbatim>\<open>s.split(sep)\<close> with a one-character separator: the result is never empty, and
  the empty string splits into one empty piece.
\<close>

fun split_on :: "char \<Rightarrow> string \<Rightarrow> string list" where
  "split_on c [] = [[]]"
| "split_on c (x # xs) =
     (if x = c then [] # split_on c xs
      else (case split_on c xs of
              [] \<Rightarrow> [[x]]
            | w # ws \<Rightarrow> (x # w) # ws))"

text \<open>\<^verbatim>\<open>sep.join(parts)\<close>.\<close>

fun py_join :: "string \<Rightarrow> string list \<Rightarrow> string" where
  "py_join sep [] = []"
| "py_join sep [w] = w"
| "py_join sep (w # v # ws) = w @ sep @ py_join sep (v # ws)"

text \<open>\<^verbatim>\<open>s.endswith(suffix)\<close>.\<close>

definition endswith :: "string \<Rightarrow> string \<Rightarrow> bool" where
  "endswith s suffix \<longleftrightarrow>
     length suffix \<le> length s \<and> drop (length s - length suffix) s = suffix"

text \<open>
  \<^verbatim>\<open>os.path.join(a, b)\<close> of \<^verbatim>\<open>posixpath\<close>: an absolute second component
  replaces the first; a separator is inserted unless the first component is empty or
  already ends with one.
\<close>

definition os_path_join :: "string \<Rightarrow> string \<Rightarrow> string" where
  "os_path_join a b =
     (if b \<noteq> [] \<and> hd b = CHR ''/'' then b
      else if a = [] \<or> last a = CHR ''/'' then a @ b
      else a @ ''/'' @ b)"

subsection \<open>Integers as text\<close>

definition is_digit :: "char \<Rightarrow> bool" where
  "is_digit c \<longleftrightarrow> (48::nat) \<le> of_char c \<and> of_char c \<le> (57::nat)"

definition digit_val :: "char \<Rightarrow> nat" where
  "digit_val c = of_char c - 48"

text \<open>The value of a digit string, most significant digit first.\<close>

definition digits_val :: "string \<Rightarrow> nat" where
  "digits_val ds = foldl (\<lambda>acc c. 10 * acc + digit_val c) 0 ds"

text \<open>
  \<^verbatim>\<open>str(n)\<close> for an integer: decimal digits, with a minus sign for negative values.
\<close>

fun str_nat :: "nat \<Rightarrow> string" where
  "str_nat n =
     (if n < 10 then [char_of (48 + n)]
      else str_nat (n div 10) @ [char_of (48 + n mod 10)])"

definition str_int :: "int \<Rightarrow> string" where
  "str_int i = (if i < 0 then CHR ''-'' # str_nat (nat (- i)) else str_nat (nat i))"

text \<open>
  \<^verbatim>\<open>repr(s)\<close> of a string, as it appears in the messages of the interpreter's own
  exceptions: quotes are chosen by the content, and the quote, the backslash and the
  characters that are not printable are escaped.
\<close>

definition hex_digit :: "nat \<Rightarrow> char" where
  "hex_digit n = (if n < 10 then char_of (48 + n) else char_of (87 + n))"

definition repr_char :: "char \<Rightarrow> char \<Rightarrow> string" where
  "repr_char q c =
     (if c = q \<or> c = CHR 0x5C then [CHR 0x5C, c]
      else if c = TAB then [CHR 0x5C, CHR ''t'']
      else if c = NL then [CHR 0x5C, CHR ''n'']
      else if c = CR then [CHR 0x5C, CHR ''r'']
      else if (of_char c :: nat) < 32
              \<or> (127 \<le> (of_char c :: nat) \<and> (of_char c :: nat) \<le> 160)
              \<or> (of_char c :: nat) = 173
        then [CHR 0x5C, CHR ''x'', hex_digit ((of_char c :: nat) div 16),
              hex_digit ((of_char c :: nat) mod 16)]
      else [c])"

definition py_repr :: "string \<Rightarrow> string" where
  "py_repr s =
     (let q = (if CHR 0x27 \<in> set s \<and> CHR 0x22 \<notin> set s then CHR 0x22 else CHR 0x27)
      in q # concat (map (repr_char q) s) @ [q])"

subsection \<open>Values held in tables and records\<close>

text \<open>
  A cell of a data frame or a value of a record dictionary: a Python string, a Python
  integer, or any other object (a NumPy number, a missing value), which is kept as the
  text that \<^verbatim>\<open>str\<close> gives for it. Only a \<open>PyStr\<close> value compares equal to a string.
\<close>

datatype pyval = PyStr string | PyInt int | PyObj string

fun py_str :: "pyval \<Rightarrow> string" where
  "py_str (PyStr s) = s"
| "py_str (PyInt i) = str_int i"
| "py_str (PyObj s) = s"

type_synonym pydict = "(string \<times> pyval) list"

text \<open>
  A dictionary keeps its keys in insertion order; assigning to a key that is present
  replaces the value in place. \<^const>\<open>AList.update\<close> does exactly that.
  \<open>dict_update_all\<close> is the \<^verbatim>\<open>**mapping\<close> part of a dictionary display (and
  \<^verbatim>\<open>dict(pairs)\<close> when started from the empty dictionary).
\<close>

definition dict_update_all :: "(string \<times> pyval) list \<Rightarrow> pydict \<Rightarrow> pydict" where
  "dict_update_all items d = foldl (\<lambda>acc (k, v). AList.update k v acc) d items"

subsection \<open>Exceptions\<close>

datatype exc_class =
    FileNotFoundError | IsADirectoryError | NotADirectoryError
  | ValueError | IndexError | KeyError | AttributeError
  | OtherException
  | KeyboardInterrupt | SystemExit

text \<open>An exception: its class and the text \<^verbatim>\<open>str(e)\<close> yields.\<close>

datatype py_exn = PyExn exc_class string

fun exn_class :: "py_exn \<Rightarrow> exc_class" where
  "exn_class (PyExn c m) = c"

fun exn_str :: "py_exn \<Rightarrow> string" where
  "exn_str (PyExn c m) = m"

text \<open>
  Both functions guard their body with \<^verbatim>\<open>except Exception as e\<close>. That clause
  matches the subclasses of \<^verbatim>\<open>Exception\<close>; \<^verbatim>\<open>KeyboardInterrupt\<close> and
  \<^verbatim>\<open>SystemExit\<close> derive from \<^verbatim>\<open>BaseException\<close> only and pass through it.
\<close>

fun is_Exception :: "exc_class \<Rightarrow> bool" where
  "is_Exception KeyboardInterrupt = False"
| "is_Exception SystemExit = False"
| "is_Exception c = True"

text \<open>What a call does: it returns a value or lets an exception escape.\<close>

datatype 'a outcome = Returns 'a | Raises py_exn

subsection \<open>Parsing an integer\<close>

text \<open>
  \<^verbatim>\<open>int(s)\<close> in base ten, as CPython reads a string. White space around the number
  is skipped; there it is the ASCII white space of C, and U+0085 and U+00A0, which are
  turned into blanks first. The separators U+001C to U+001F, which \<^verbatim>\<open>str.strip\<close>
  removes, are not white space for \<^verbatim>\<open>int\<close>.
\<close>

definition is_int_space :: "char \<Rightarrow> bool" where
  "is_int_space c \<longleftrightarrow> c \<in> {CHR 0x09, CHR 0x0A, CHR 0x0B, CHR 0x0C, CHR 0x0D, CHR 0x20,
                                 CHR 0x85, CHR 0xA0}"

definition digit_or_underscore :: "char \<Rightarrow> bool" where
  "digit_or_underscore c \<longleftrightarrow> is_digit c \<or> c = CHR ''_''"

text \<open>
  After the white space and one optional sign comes the run of digits and underscores.
  It must start and end with a digit and have no two underscores in a row. A run of
  more than 4300 digits is refused (the default of \<^verbatim>\<open>sys.set_int_max_str_digits\<close>),
  before the rest of the string is looked at. After the run only white space may
  follow. Every failure is a \<^verbatim>\<open>ValueError\<close>.
\<close>

definition py_int :: "string \<Rightarrow> py_exn + int" where
  "py_int s =
     (let t = dropWhile is_int_space s;
          negative = (t \<noteq> [] \<and> hd t = CHR ''-'');
          u = (if t \<noteq> [] \<and> (hd t = CHR ''-'' \<or> hd t = CHR ''+'') then tl t else t);
          digit_run = takeWhile digit_or_underscore u;
          after_run = dropWhile digit_or_underscore u;
          invalid = PyExn ValueError
                      (''invalid literal for int() with base 10: '' @ py_repr s)
      in if \<not> list_all (\<lambda>g. g \<noteq> []) (split_on (CHR ''_'') digit_run) then Inl invalid
         else if 4300 < length (filter is_digit digit_run) then
           Inl (PyExn ValueError
                  (''Exceeds the limit (4300 digits) for integer string conversion: value has ''
                   @ str_nat (length (filter is_digit digit_run))
                   @ '' digits; use sys.set_int_max_str_digits() to increase the limit''))
         else if dropWhile is_int_space after_run \<noteq> [] then Inl invalid
         else (let v = int (digits_val (filter is_digit digit_run))
               in Inr (if negative then - v else v)))"

subsection \<open>The file system\<close>

text \<open>
  Paths are looked up as the strings the program builds. A directory node carries its
  entries in the order \<^verbatim>\<open>os.listdir\<close> reports them; the program lists a directory
  once, before it writes anything.
\<close>

datatype node = RegFile string | Directory "string list"

type_synonym filesystem = "string \<rightharpoonup> node"

definition os_path_exists :: "filesystem \<Rightarrow> string \<Rightarrow> bool" where
  "os_path_exists fs p \<longleftrightarrow> fs p \<noteq> None"

definition os_listdir :: "filesystem \<Rightarrow> string \<Rightarrow> py_exn + string list" where
  "os_listdir fs p =
     (case fs p of
        None \<Rightarrow> Inl (PyExn FileNotFoundError
                  (''[Errno 2] No such file or directory: '' @ py_repr p))
      | Some (RegFile c) \<Rightarrow> Inl (PyExn NotADirectoryError
                  (''[Errno 20] Not a directory: '' @ py_repr p))
      | Some (Directory entries) \<Rightarrow> Inr entries)"

text \<open>
  Reading in text mode: \<^verbatim>\<open>\r\n\<close> and a lone \<^verbatim>\<open>\r\<close> become \<^verbatim>\<open>\n\<close>, and iterating
  over the file yields its lines with their terminator.
\<close>

fun universal_newlines :: "string \<Rightarrow> string" where
  "universal_newlines [] = []"
| "universal_newlines [c] = (if c = CR then [NL] else [c])"
| "universal_newlines (c # d # cs) =
     (if c = CR \<and> d = NL then NL # universal_newlines cs
      else if c = CR then NL # universal_newlines (d # cs)
      else c # universal_newlines (d # cs))"

fun lines_keepends :: "string \<Rightarrow> string \<Rightarrow> string list" where
  "lines_keepends cur [] = (if cur = [] then [] else [cur])"
| "lines_keepends cur (c # cs) =
     (if c = NL then (cur @ [NL]) # lines_keepends [] cs
      else lines_keepends (cur @ [c]) cs)"

definition open_read :: "filesystem \<Rightarrow> string \<Rightarrow> py_exn + string list" where
  "open_read fs p =
     (case fs p of
        None \<Rightarrow> Inl (PyExn FileNotFoundError
                  (''[Errno 2] No such file or directory: '' @ py_repr p))
      | Some (Directory entries) \<Rightarrow> Inl (PyExn IsADirectoryError
                  (''[Errno 21] Is a directory: '' @ py_repr p))
      | Some (RegFile c) \<Rightarrow> Inr (lines_keepends [] (universal_newlines c)))"

text \<open>
  Opening a path for writing fails on a directory; otherwise the file is created or
  truncated. The parent of every path the program writes is the directory it has just
  listed.
\<close>

definition open_write :: "filesystem \<Rightarrow> string \<Rightarrow> py_exn + filesystem" where
  "open_write fs p =
     (case fs p of
        Some (Directory entries) \<Rightarrow> Inl (PyExn IsADirectoryError
                  (''[Errno 21] Is a directory: '' @ py_repr p))
      | _ \<Rightarrow> Inr (fs(p \<mapsto> RegFile [])))"

subsection \<open>Data frames and the pandas calls\<close>

text \<open>
  A data frame: its column labels and its rows, each row holding one cell per column.
  A cell is the value as its row yields it (\<^verbatim>\<open>.iloc[i]\<close>), so a \<open>PyObj\<close> cell carries
  the text of the value after the conversion pandas applies to a row of mixed types.
  Column labels are strings.
\<close>

record table =
  columns :: "string list"
  rows :: "pyval list list"

text \<open>
  \<^verbatim>\<open>pd.read_csv(path, sep=",")\<close> and \<^verbatim>\<open>DataFrame.to_csv(path, index=False)\<close> are
  library code. They are parameters of the model: how a file at a path parses into a
  table (or fails), and the text written for a one-column frame with a label and its
  values.
\<close>

record pandas =
  read_csv :: "filesystem \<Rightarrow> string \<Rightarrow> py_exn + table"
  to_csv :: "string \<Rightarrow> string list \<Rightarrow> string"

text \<open>
  \<^verbatim>\<open>metadata[sample_id_col]\<close> selects by label. With the label of the first column
  occurring once it is the first column; with a repeated label pandas returns a frame,
  on which \<^verbatim>\<open>.unique()\<close> raises \<^verbatim>\<open>AttributeError\<close>.
\<close>

definition first_cells :: "table \<Rightarrow> pyval list" where
  "first_cells md = concat (map (take 1) (rows md))"

definition id_values :: "table \<Rightarrow> py_exn + pyval list" where
  "id_values md =
     (if 1 < count_list (columns md) (hd (columns md))
      then Inl (PyExn AttributeError
             (py_repr ''DataFrame'' @ '' object has no attribute '' @ py_repr ''unique''))
      else Inr (first_cells md))"

text \<open>
  \<^verbatim>\<open>metadata.loc[metadata[sample_id_col] == extracted_part].iloc[0].to_dict()\<close>: the
  first row whose identifier cell equals the string, as a dictionary from column label
  to cell.
\<close>

definition sample_metadata_row :: "table \<Rightarrow> string \<Rightarrow> py_exn + pydict" where
  "sample_metadata_row md extracted_part =
     (case find (\<lambda>r. take 1 r = [PyStr extracted_part]) (rows md) of
        None \<Rightarrow> Inl (PyExn IndexError ''single positional indexer is out-of-bounds'')
      | Some r \<Rightarrow> Inr (dict_update_all (zip (columns md) r) []))"

section \<open>\<^verbatim>\<open>process_sample\<close>\<close>

text \<open>
  The three wrappers \<^verbatim>\<open>run_trimmomatic\<close>, \<^verbatim>\<open>run_bowtie2\<close> and \<^verbatim>\<open>run_kraken2\<close>
  are imported from sibling modules and run external programs. They are parameters:
  each takes its arguments and the file system, and yields its result or an exception
  together with the file system it leaves behind.
\<close>

record tools =
  run_trimmomatic ::
    "string \<Rightarrow> string \<Rightarrow> string \<Rightarrow> string \<Rightarrow> int \<Rightarrow> filesystem
       \<Rightarrow> (py_exn + string \<times> string) \<times> filesystem"
  run_bowtie2 ::
    "string \<Rightarrow> string \<Rightarrow> string \<Rightarrow> string \<Rightarrow> string \<Rightarrow> int \<Rightarrow> filesystem
       \<Rightarrow> (py_exn + string \<times> string) \<times> filesystem"
  run_kraken2 ::
    "string \<Rightarrow> string \<Rightarrow> string \<Rightarrow> string \<Rightarrow> string \<Rightarrow> int \<Rightarrow> filesystem
       \<Rightarrow> (py_exn + string) \<times> filesystem"

datatype tool = Trimmomatic | Bowtie2 | Kraken2

text \<open>
  What a run leaves behind: the outcome of the call, the file system, the lines printed
  and the wrappers invoked, in order.
\<close>

record 'a run =
  outcome_of :: "'a outcome"
  files_after :: filesystem
  printed :: "string list"
  invoked :: "tool list"

text \<open>The body of the \<^verbatim>\<open>try\<close> block.\<close>

definition process_sample_body ::
  "tools \<Rightarrow> string \<Rightarrow> string \<Rightarrow> string \<Rightarrow> string \<Rightarrow> string \<Rightarrow> string \<Rightarrow> int \<Rightarrow> bool \<Rightarrow> bool
     \<Rightarrow> filesystem \<Rightarrow> (py_exn + string) \<times> filesystem \<times> tool list" where
  "process_sample_body t forward reverse base_name bowtie2_index kraken_db output_dir
       threads run_bowtie use_precomputed_reports fs =
     (if \<not> use_precomputed_reports then
        (case run_trimmomatic t forward reverse base_name output_dir threads fs of
           (Inl e, fs1) \<Rightarrow> (Inl e, fs1, [Trimmomatic])
         | (Inr (trimmed_forward, trimmed_reverse), fs1) \<Rightarrow>
             (if run_bowtie then
                (case run_bowtie2 t trimmed_forward trimmed_reverse base_name bowtie2_index
                        output_dir threads fs1 of
                   (Inl e, fs2) \<Rightarrow> (Inl e, fs2, [Trimmomatic, Bowtie2])
                 | (Inr (unmapped_r1, unmapped_r2), fs2) \<Rightarrow>
                     (case run_kraken2 t unmapped_r1 unmapped_r2 base_name kraken_db
                             output_dir threads fs2 of
                        (r, fs3) \<Rightarrow> (r, fs3, [Trimmomatic, Bowtie2, Kraken2])))
              else
                (case run_kraken2 t trimmed_forward trimmed_reverse base_name kraken_db
                        output_dir threads fs1 of
                   (r, fs3) \<Rightarrow> (r, fs3, [Trimmomatic, Kraken2]))))
      else
        (let kraken_report = os_path_join output_dir (base_name @ ''_report.txt'')
         in if \<not> os_path_exists fs kraken_report
            then (Inl (PyExn FileNotFoundError
                    (''Precomputed Kraken2 report not found: '' @ kraken_report)), fs, [])
            else (Inr kraken_report, fs, [])))"

text \<open>
  The function with its handler: an \<^verbatim>\<open>Exception\<close> is handed to \<^verbatim>\<open>print\<close> with the
  sample name, and the result is \<^verbatim>\<open>None\<close>; anything else escapes. The \<^verbatim>\<open>print\<close>
  stands inside the handler without a guard of its own, so an exception it raises
  escapes as well. What \<^verbatim>\<open>print\<close> does with a line is a parameter: \<open>None\<close> when the
  line is written, the exception otherwise.
\<close>

type_synonym console = "string \<Rightarrow> py_exn option"

definition process_sample_with ::
  "console \<Rightarrow> tools \<Rightarrow> string \<Rightarrow> string \<Rightarrow> string \<Rightarrow> string \<Rightarrow> string \<Rightarrow> string \<Rightarrow> int
     \<Rightarrow> bool \<Rightarrow> bool \<Rightarrow> filesystem \<Rightarrow> string option run" where
  "process_sample_with print_line t forward reverse base_name bowtie2_index kraken_db
       output_dir threads run_bowtie use_precomputed_reports fs =
     (case process_sample_body t forward reverse base_name bowtie2_index kraken_db
             output_dir threads run_bowtie use_precomputed_reports fs of
        (Inr kraken_report, fs', called) \<Rightarrow>
          \<lparr>outcome_of = Returns (Some kraken_report), files_after = fs',
           printed = [], invoked = called\<rparr>
      | (Inl e, fs', called) \<Rightarrow>
          (if is_Exception (exn_class e)
           then (case print_line (''Error processing sample '' @ base_name @ '': '' @ exn_str e) of
                   None \<Rightarrow>
                     \<lparr>outcome_of = Returns None, files_after = fs',
                      printed = [''Error processing sample '' @ base_name @ '': '' @ exn_str e],
                      invoked = called\<rparr>
                 | Some print_error \<Rightarrow>
                     \<lparr>outcome_of = Raises print_error, files_after = fs',
                      printed = [], invoked = called\<rparr>)
           else \<lparr>outcome_of = Raises e, files_after = fs',
                 printed = [], invoked = called\<rparr>))"

text \<open>
  \<^verbatim>\<open>process_sample\<close> on a standard output that takes every line. The handler of
  \<^verbatim>\<open>aggregate_kraken_results\<close> below is modelled on such an output as well.
\<close>

definition process_sample ::
  "tools \<Rightarrow> string \<Rightarrow> string \<Rightarrow> string \<Rightarrow> string \<Rightarrow> string \<Rightarrow> string \<Rightarrow> int \<Rightarrow> bool \<Rightarrow> bool
     \<Rightarrow> filesystem \<Rightarrow> string option run" where
  "process_sample = process_sample_with (\<lambda>line. None)"

section \<open>\<^verbatim>\<open>aggregate_kraken_results\<close>\<close>

subsection \<open>Resolving the metadata\<close>

text \<open>\<^verbatim>\<open>sample_id_col = metadata.columns[0]\<close> needs a first column.\<close>

definition with_id_column :: "table \<Rightarrow> py_exn + table" where
  "with_id_column metadata =
     (if columns metadata = []
      then Inl (PyExn IndexError ''index 0 is out of bounds for axis 0 with size 0'')
      else Inr metadata)"

definition metadata_from_frame :: "table option \<Rightarrow> py_exn + table" where
  "metadata_from_frame sample_id_df =
     (case sample_id_df of
        Some metadata \<Rightarrow> with_id_column metadata
      | None \<Rightarrow> Inl (PyExn ValueError ''No metadata provided, and sample_id_df is None.''))"

text \<open>
  The \<^verbatim>\<open>if\<close>/\<^verbatim>\<open>elif\<close>/\<^verbatim>\<open>else\<close> that opens the function. \<^verbatim>\<open>metadata_file\<close> is
  \<^verbatim>\<open>None\<close> or a string; \<^verbatim>\<open>None\<close> and the empty string are false.
\<close>

definition resolve_metadata ::
  "pandas \<Rightarrow> filesystem \<Rightarrow> string option \<Rightarrow> table option \<Rightarrow> py_exn + table" where
  "resolve_metadata pd fs metadata_file sample_id_df =
     (case metadata_file of
        None \<Rightarrow> metadata_from_frame sample_id_df
      | Some path \<Rightarrow>
          (if path \<noteq> [] \<and> os_path_exists fs path
           then (case read_csv pd fs path of
                   Inl e \<Rightarrow> Inl e
                 | Inr metadata \<Rightarrow> with_id_column metadata)
           else metadata_from_frame sample_id_df))"

subsection \<open>Scanning the reports\<close>

text \<open>
  The loop state: \<^verbatim>\<open>aggregated_results\<close>, a dictionary from the key to the record,
  and the list \<^verbatim>\<open>sampleid\<close>.
\<close>

type_synonym agg_state = "(string \<times> pydict) list \<times> string list"

text \<open>
  \<^verbatim>\<open>parts = file_name.split('_')\<close>, \<^verbatim>\<open>extracted_part = '_'.join(parts[:-1])\<close>.
\<close>

definition extracted_part :: "string \<Rightarrow> string" where
  "extracted_part file_name = py_join ''_'' (butlast (split_on (CHR ''_'') file_name))"

text \<open>The dictionary display that builds one record.\<close>

definition build_record ::
  "string \<Rightarrow> string \<Rightarrow> int \<Rightarrow> string \<Rightarrow> string \<Rightarrow> string \<Rightarrow> string \<Rightarrow> pydict \<Rightarrow> pydict" where
  "build_record perc_frag_cover nr_frag_cover nr_frag_direct_at_taxon rank_code ncbi_ID
       scientific_name sample sample_metadata =
     dict_update_all sample_metadata
       [(''Perc_frag_cover'', PyStr perc_frag_cover),
        (''Nr_frag_cover'', PyStr nr_frag_cover),
        (''Nr_frag_direct_at_taxon'', PyInt nr_frag_direct_at_taxon),
        (''Rank_code'', PyStr rank_code),
        (''NCBI_ID'', PyStr ncbi_ID),
        (''Scientific_name'', PyStr scientific_name),
        (''SampleID'', PyStr sample)]"

text \<open>
  The body of \<^verbatim>\<open>for line in f\<close>. Indexing \<^verbatim>\<open>fields\<close> past its end raises
  \<^verbatim>\<open>IndexError\<close>, a third field that is no integer raises \<^verbatim>\<open>ValueError\<close>, in the
  order in which the statements run.
\<close>

definition process_line ::
  "table \<Rightarrow> int \<Rightarrow> string \<Rightarrow> agg_state \<Rightarrow> string \<Rightarrow> py_exn + agg_state" where
  "process_line metadata read_count file_name st line =
     (let fields = split_on TAB (py_strip line) in
      if length fields < 3 then Inl (PyExn IndexError ''list index out of range'')
      else
        (case py_int (fields ! 2) of
           Inl e \<Rightarrow> Inl e
         | Inr nr_frag_direct_at_taxon \<Rightarrow>
             if length fields < 6 then Inl (PyExn IndexError ''list index out of range'')
             else
               (let perc_frag_cover = fields ! 0;
                    nr_frag_cover = fields ! 1;
                    rank_code = fields ! 3;
                    ncbi_ID = fields ! 4;
                    scientific_name = fields ! 5;
                    sampleandtaxonid = extracted_part file_name @ ncbi_ID;
                    sampleid = snd st @ [extracted_part file_name]
                in if rank_code = ''S'' \<and> read_count \<le> nr_frag_direct_at_taxon then
                     (case id_values metadata of
                        Inl e \<Rightarrow> Inl e
                      | Inr ids \<Rightarrow>
                          if PyStr (extracted_part file_name) \<in> set ids then
                            (case sample_metadata_row metadata (extracted_part file_name) of
                               Inl e \<Rightarrow> Inl e
                             | Inr sample_metadata \<Rightarrow>
                                 Inr (AList.update sampleandtaxonid
                                        (build_record perc_frag_cover nr_frag_cover
                                           nr_frag_direct_at_taxon rank_code ncbi_ID
                                           scientific_name (extracted_part file_name)
                                           sample_metadata)
                                        (fst st),
                                      sampleid))
                          else Inr (fst st, sampleid))
                   else Inr (fst st, sampleid))))"

fun scan_lines ::
  "table \<Rightarrow> int \<Rightarrow> string \<Rightarrow> agg_state \<Rightarrow> string list \<Rightarrow> py_exn + agg_state" where
  "scan_lines metadata read_count file_name st [] = Inr st"
| "scan_lines metadata read_count file_name st (line # rest) =
     (case process_line metadata read_count file_name st line of
        Inl e \<Rightarrow> Inl e
      | Inr st' \<Rightarrow> scan_lines metadata read_count file_name st' rest)"

text \<open>The loop \<^verbatim>\<open>for file_name in os.listdir(kraken_dir)\<close>.\<close>

fun scan_reports ::
  "filesystem \<Rightarrow> string \<Rightarrow> table \<Rightarrow> int \<Rightarrow> agg_state \<Rightarrow> string list
     \<Rightarrow> py_exn + agg_state" where
  "scan_reports fs kraken_dir metadata read_count st [] = Inr st"
| "scan_reports fs kraken_dir metadata read_count st (file_name # rest) =
     (if endswith file_name ''_report.txt'' then
        (case open_read fs (os_path_join kraken_dir file_name) of
           Inl e \<Rightarrow> Inl e
         | Inr file_lines \<Rightarrow>
             (case scan_lines metadata read_count file_name st file_lines of
                Inl e \<Rightarrow> Inl e
              | Inr st' \<Rightarrow> scan_reports fs kraken_dir metadata read_count st' rest))
      else scan_reports fs kraken_dir metadata read_count st rest)"

subsection \<open>Writing the two files\<close>

definition fixed_headers :: "string list" where
  "fixed_headers =
     [''Perc_frag_cover'', ''Nr_frag_cover'', ''Nr_frag_direct_at_taxon'', ''Rank_code'',
      ''NCBI_ID'', ''Scientific_name'', ''SampleID'']"

definition headers :: "table \<Rightarrow> string list" where
  "headers metadata = fixed_headers @ tl (columns metadata)"

text \<open>
  \<^verbatim>\<open>str(data[col]) for col in headers\<close>: a missing key raises \<^verbatim>\<open>KeyError\<close>.
\<close>

fun row_values :: "pydict \<Rightarrow> string list \<Rightarrow> py_exn + string list" where
  "row_values data [] = Inr []"
| "row_values data (col # cols) =
     (case map_of data col of
        None \<Rightarrow> Inl (PyExn KeyError (py_repr col))
      | Some v \<Rightarrow>
          (case row_values data cols of
             Inl e \<Rightarrow> Inl e
           | Inr vs \<Rightarrow> Inr (py_str v # vs)))"

text \<open>
  The rows of the merged table, in the order of the dictionary: the rows written before
  the first failure, and that failure if there is one.
\<close>

fun merged_rows ::
  "string list \<Rightarrow> (string \<times> pydict) list \<Rightarrow> string list \<times> py_exn option" where
  "merged_rows hs [] = ([], None)"
| "merged_rows hs ((key, data) # rest) =
     (case row_values data hs of
        Inl e \<Rightarrow> ([], Some e)
      | Inr vs \<Rightarrow>
          (case merged_rows hs rest of
             (written, failure) \<Rightarrow> (py_join [TAB] vs # written, failure)))"

definition file_text :: "string list \<Rightarrow> string" where
  "file_text written = concat (map (\<lambda>l. l @ [NL]) written)"

text \<open>
  The \<^verbatim>\<open>with open(merged_tsv_path, 'w')\<close> block: the header line, then one line per
  record. What was written stays in the file when a row fails.
\<close>

definition write_merged ::
  "filesystem \<Rightarrow> string \<Rightarrow> table \<Rightarrow> (string \<times> pydict) list
     \<Rightarrow> (py_exn + unit) \<times> filesystem" where
  "write_merged fs merged_tsv_path metadata aggregated_results =
     (case open_write fs merged_tsv_path of
        Inl e \<Rightarrow> (Inl e, fs)
      | Inr fs' \<Rightarrow>
          (case merged_rows (headers metadata) aggregated_results of
             (written, failure) \<Rightarrow>
               ((case failure of None \<Rightarrow> Inr () | Some e \<Rightarrow> Inl e),
                fs'(merged_tsv_path \<mapsto>
                      RegFile (file_text (py_join [TAB] (headers metadata) # written))))))"

text \<open>
  \<^verbatim>\<open>pd.DataFrame(sampleid, columns=['Sample_IDs']).to_csv(path, index=False)\<close>.
\<close>

definition write_sample_ids ::
  "pandas \<Rightarrow> filesystem \<Rightarrow> string \<Rightarrow> string list \<Rightarrow> py_exn + filesystem" where
  "write_sample_ids pd fs sampleid_csv_path sampleid =
     (case open_write fs sampleid_csv_path of
        Inl e \<Rightarrow> Inl e
      | Inr fs' \<Rightarrow>
          Inr (fs'(sampleid_csv_path \<mapsto> RegFile (to_csv pd ''Sample_IDs'' sampleid))))"

subsection \<open>The function\<close>

text \<open>The body of the \<^verbatim>\<open>try\<close> block.\<close>

definition aggregate_body ::
  "pandas \<Rightarrow> filesystem \<Rightarrow> string \<Rightarrow> string option \<Rightarrow> table option \<Rightarrow> int
     \<Rightarrow> (py_exn + string) \<times> filesystem" where
  "aggregate_body pd fs kraken_dir metadata_file sample_id_df read_count =
     (case resolve_metadata pd fs metadata_file sample_id_df of
        Inl e \<Rightarrow> (Inl e, fs)
      | Inr metadata \<Rightarrow>
     (case os_listdir fs kraken_dir of
        Inl e \<Rightarrow> (Inl e, fs)
      | Inr names \<Rightarrow>
     (case scan_reports fs kraken_dir metadata read_count ([], []) names of
        Inl e \<Rightarrow> (Inl e, fs)
      | Inr (aggregated_results, sampleid) \<Rightarrow>
     (let merged_tsv_path = os_path_join kraken_dir ''merged_kraken1.tsv'' in
      case write_merged fs merged_tsv_path metadata aggregated_results of
        (Inl e, fs1) \<Rightarrow> (Inl e, fs1)
      | (Inr u, fs1) \<Rightarrow>
     (case write_sample_ids pd fs1 (os_path_join kraken_dir ''sample_ids.csv'') sampleid of
        Inl e \<Rightarrow> (Inl e, fs1)
      | Inr fs2 \<Rightarrow> (Inr merged_tsv_path, fs2))))))"

definition aggregate_kraken_results ::
  "pandas \<Rightarrow> filesystem \<Rightarrow> string \<Rightarrow> string option \<Rightarrow> table option \<Rightarrow> int
     \<Rightarrow> string option run" where
  "aggregate_kraken_results pd fs kraken_dir metadata_file sample_id_df read_count =
     (case aggregate_body pd fs kraken_dir metadata_file sample_id_df read_count of
        (Inr merged_tsv_path, fs') \<Rightarrow>
          \<lparr>outcome_of = Returns (Some merged_tsv_path), files_after = fs',
           printed = [], invoked = []\<rparr>
      | (Inl e, fs') \<Rightarrow>
          (if is_Exception (exn_class e)
           then \<lparr>outcome_of = Returns None, files_after = fs',
                 printed = [''Error aggregating Kraken results: '' @ exn_str e],
                 invoked = []\<rparr>
           else \<lparr>outcome_of = Raises e, files_after = fs',
                 printed = [], invoked = []\<rparr>))"

section \<open>Vocabulary of the properties\<close>

text \<open>
  The rows the scan meets, in the order it meets them: for every listed name with the
  report suffix, the lines of that file, each paired with the file name.
\<close>

definition is_report :: "string \<Rightarrow> bool" where
  "is_report file_name \<longleftrightarrow> endswith file_name ''_report.txt''"

definition lines_of :: "filesystem \<Rightarrow> string \<Rightarrow> string list" where
  "lines_of fs p = (case open_read fs p of Inl e \<Rightarrow> [] | Inr file_lines \<Rightarrow> file_lines)"

definition report_rows :: "filesystem \<Rightarrow> string \<Rightarrow> string list \<Rightarrow> (string \<times> string) list" where
  "report_rows fs kraken_dir names =
     concat (map (\<lambda>n. map (Pair n) (lines_of fs (os_path_join kraken_dir n)))
               (filter is_report names))"

text \<open>The fields of a row, as the loop body reads them.\<close>

definition row_fields :: "string \<Rightarrow> string list" where
  "row_fields line = split_on TAB (py_strip line)"

definition direct_count :: "string \<Rightarrow> int option" where
  "direct_count line = (case py_int (row_fields line ! 2) of Inl e \<Rightarrow> None | Inr c \<Rightarrow> Some c)"

definition rank_code :: "string \<Rightarrow> string" where
  "rank_code line = row_fields line ! 3"

definition taxon_id :: "string \<Rightarrow> string" where
  "taxon_id line = row_fields line ! 4"

text \<open>A row the loop body gets through: six fields at least, the third an integer.\<close>

definition well_formed_row :: "string \<Rightarrow> bool" where
  "well_formed_row line \<longleftrightarrow> 6 \<le> length (row_fields line) \<and> direct_count line \<noteq> None"

text \<open>
  The three conditions on a row of a file: species rank, enough directly assigned
  fragments, and a row of the metadata whose first cell is the sample of the file, as
  a string.
\<close>

definition row_selected :: "table \<Rightarrow> int \<Rightarrow> string \<times> string \<Rightarrow> bool" where
  "row_selected metadata read_count r \<longleftrightarrow>
     rank_code (snd r) = ''S''
     \<and> (case direct_count (snd r) of None \<Rightarrow> False | Some c \<Rightarrow> read_count \<le> c)
     \<and> (\<exists>m \<in> set (rows metadata). take 1 m = [PyStr (extracted_part (fst r))])"

definition row_key :: "string \<times> string \<Rightarrow> string" where
  "row_key r = extracted_part (fst r) @ taxon_id (snd r)"

text \<open>
  The names of the seven fixed fields, the fields a row of a file gives to its record,
  a line of the merged table for a record under a list of column names, and the text of
  a file written line by line.
\<close>

abbreviation report_field_names :: "string list" where
  "report_field_names \<equiv>
     [''Perc_frag_cover'', ''Nr_frag_cover'', ''Nr_frag_direct_at_taxon'', ''Rank_code'',
      ''NCBI_ID'', ''Scientific_name'', ''SampleID'']"

abbreviation report_pairs :: "string \<Rightarrow> string \<Rightarrow> (string \<times> pyval) list" where
  "report_pairs file_name line \<equiv>
     [(''Perc_frag_cover'', PyStr (row_fields line ! 0)),
      (''Nr_frag_cover'', PyStr (row_fields line ! 1)),
      (''Nr_frag_direct_at_taxon'',
         PyInt (case direct_count line of None \<Rightarrow> 0 | Some c \<Rightarrow> c)),
      (''Rank_code'', PyStr (row_fields line ! 3)),
      (''NCBI_ID'', PyStr (row_fields line ! 4)),
      (''Scientific_name'', PyStr (row_fields line ! 5)),
      (''SampleID'', PyStr (extracted_part file_name))]"

abbreviation table_line :: "string list \<Rightarrow> pydict \<Rightarrow> string" where
  "table_line names d \<equiv>
     py_join [TAB] (map (\<lambda>c. case map_of d c of None \<Rightarrow> [] | Some v \<Rightarrow> py_str v) names)"

abbreviation lines_text :: "string list \<Rightarrow> string" where
  "lines_text written \<equiv> concat (map (\<lambda>l. l @ [NL]) written)"

text \<open>The record the loop body builds from a row it selects.\<close>

definition row_record :: "table \<Rightarrow> string \<times> string \<Rightarrow> pydict" where
  "row_record metadata r =
     build_record (row_fields (snd r) ! 0) (row_fields (snd r) ! 1)
       (case direct_count (snd r) of None \<Rightarrow> 0 | Some c \<Rightarrow> c)
       (rank_code (snd r)) (taxon_id (snd r)) (row_fields (snd r) ! 5)
       (extracted_part (fst r))
       (case sample_metadata_row metadata (extracted_part (fst r)) of
          Inl e \<Rightarrow> [] | Inr sample_metadata \<Rightarrow> sample_metadata)"

text \<open>The effect of one row on the loop state when nothing is raised.\<close>

definition apply_row :: "table \<Rightarrow> int \<Rightarrow> agg_state \<Rightarrow> string \<times> string \<Rightarrow> agg_state" where
  "apply_row metadata read_count st r =
     (if row_selected metadata read_count r
      then AList.update (row_key r) (row_record metadata r) (fst st)
      else fst st,
      snd st @ [extracted_part (fst r)])"

text \<open>No tab character in the text of any cell of a table.\<close>

definition tab_free_cells :: "table \<Rightarrow> bool" where
  "tab_free_cells metadata \<longleftrightarrow> (\<forall>r \<in> set (rows metadata). \<forall>c \<in> set r. TAB \<notin> set (py_str c))"

text \<open>
  A step of \<^verbatim>\<open>process_sample\<close> raises \<open>e\<close>: the trimmer; the aligner, when it is asked
  for, on what the trimmer returned; the classifier, on what the step before it
  returned; or, with precomputed reports, the check that the report exists.
\<close>

definition step_raises ::
  "tools \<Rightarrow> string \<Rightarrow> string \<Rightarrow> string \<Rightarrow> string \<Rightarrow> string \<Rightarrow> string \<Rightarrow> int \<Rightarrow> bool \<Rightarrow> bool
     \<Rightarrow> filesystem \<Rightarrow> py_exn \<Rightarrow> bool" where
  "step_raises t forward reverse base_name bowtie2_index kraken_db output_dir threads
       run_bowtie use_precomputed_reports fs e \<longleftrightarrow>
     (if use_precomputed_reports then
        fs (os_path_join output_dir (base_name @ ''_report.txt'')) = None
        \<and> e = PyExn FileNotFoundError
                 (''Precomputed Kraken2 report not found: ''
                  @ os_path_join output_dir (base_name @ ''_report.txt''))
      else
        (case run_trimmomatic t forward reverse base_name output_dir threads fs of
           (Inl trimmer_error, fs1) \<Rightarrow> trimmer_error = e
         | (Inr (trimmed_forward, trimmed_reverse), fs1) \<Rightarrow>
             (if run_bowtie then
                (case run_bowtie2 t trimmed_forward trimmed_reverse base_name bowtie2_index
                        output_dir threads fs1 of
                   (Inl aligner_error, fs2) \<Rightarrow> aligner_error = e
                 | (Inr (unmapped_r1, unmapped_r2), fs2) \<Rightarrow>
                     fst (run_kraken2 t unmapped_r1 unmapped_r2 base_name kraken_db
                            output_dir threads fs2) = Inl e)
              else
                fst (run_kraken2 t trimmed_forward trimmed_reverse base_name kraken_db
                       output_dir threads fs1) = Inl e)))"

section \<open>Concrete inputs\<close>

text \<open>
  A small run, used to evaluate the model: a directory \<^verbatim>\<open>k\<close> with two reports and one
  other entry. The report of sample \<^verbatim>\<open>s1\<close> has a species row, a genus row and a second
  species row for the same taxon; the report of \<^verbatim>\<open>x9\<close>, a sample the metadata does
  not know, has one species row. The entry \<^verbatim>\<open>notes_report.txt.bak\<close> is a directory.
\<close>

definition demo_metadata :: table where
  "demo_metadata =
     \<lparr>columns = [''sample'', ''site''],
      rows = [[PyStr ''s1'', PyStr ''A''], [PyStr ''s2'', PyObj ''nan'']]\<rparr>"

definition demo_pandas :: pandas where
  "demo_pandas =
     \<lparr>read_csv = (\<lambda>fs p. if p = ''meta.csv'' then Inr demo_metadata
                           else Inl (PyExn OtherException ''no columns to parse'')),
      to_csv = (\<lambda>label vs. file_text (label # vs))\<rparr>"

definition report_line :: "string list \<Rightarrow> string" where
  "report_line cells = py_join [TAB] cells @ [NL]"

definition human_row :: string where
  "human_row = report_line [''12.5'', ''100'', ''50'', ''S'', ''9606'', ''Homo sapiens'']"

definition genus_row :: string where
  "genus_row = report_line [''3.1'', ''20'', ''10'', ''G'', ''9605'', ''Homo'']"

definition human_row_later :: string where
  "human_row_later = report_line [''9.9'', ''80'', ''40'', ''S'', ''9606'', ''H. sapiens'']"

definition coli_row :: string where
  "coli_row = report_line [''5.0'', ''60'', ''60'', ''S'', ''562'', ''E. coli'']"

definition s1_report :: string where
  "s1_report = human_row @ genus_row @ human_row_later"

definition x9_report :: string where
  "x9_report = coli_row"

definition demo_names :: "string list" where
  "demo_names = [''s1_report.txt'', ''notes_report.txt.bak'', ''x9_report.txt'']"

definition demo_files :: filesystem where
  "demo_files =
     [''k'' \<mapsto> Directory demo_names,
      ''k/s1_report.txt'' \<mapsto> RegFile s1_report,
      ''k/notes_report.txt.bak'' \<mapsto> Directory [],
      ''k/x9_report.txt'' \<mapsto> RegFile x9_report,
      ''meta.csv'' \<mapsto> RegFile (''sample,site'' @ [NL] @ ''s1,A'' @ [NL] @ ''s2,'' @ [NL])]"

text \<open>A directory whose only report holds a genus row.\<close>

definition genus_only_files :: filesystem where
  "genus_only_files =
     [''k'' \<mapsto> Directory [''s1_report.txt'', ''readme.md''],
      ''k/s1_report.txt'' \<mapsto> RegFile genus_row]"

text \<open>A directory whose only report holds a genus row and then an empty line.\<close>

definition blank_line_files :: filesystem where
  "blank_line_files =
     [''k'' \<mapsto> Directory [''s1_report.txt''],
      ''k/s1_report.txt'' \<mapsto> RegFile (genus_row @ [NL])]"

text \<open>A directory without any report.\<close>

definition no_report_files :: filesystem where
  "no_report_files = [''k'' \<mapsto> Directory [''readme.md'']]"

text \<open>Metadata with a tab character inside a cell, and a directory with one report.\<close>

definition tabbed_metadata :: table where
  "tabbed_metadata =
     \<lparr>columns = [''sample'', ''note''],
      rows = [[PyStr ''s1'', PyStr (''left'' @ [TAB] @ ''right'')]]\<rparr>"

definition one_report_files :: filesystem where
  "one_report_files =
     [''k'' \<mapsto> Directory [''s1_report.txt''],
      ''k/s1_report.txt'' \<mapsto> RegFile human_row]"

text \<open>
  Wrappers for \<^verbatim>\<open>process_sample\<close>: one set that works, one whose classifier fails with
  an \<^verbatim>\<open>Exception\<close>, and one whose trimmer is interrupted from the keyboard.
\<close>

definition working_tools :: tools where
  "working_tools =
     \<lparr>run_trimmomatic = (\<lambda>forward reverse base_name output_dir threads fs.
          (Inr (os_path_join output_dir (base_name @ ''_trimmed_R1.fastq''),
                os_path_join output_dir (base_name @ ''_trimmed_R2.fastq'')), fs)),
      run_bowtie2 = (\<lambda>forward reverse base_name index output_dir threads fs.
          (Inr (os_path_join output_dir (base_name @ ''_unmapped_1.fastq''),
                os_path_join output_dir (base_name @ ''_unmapped_2.fastq'')), fs)),
      run_kraken2 = (\<lambda>forward reverse base_name db output_dir threads fs.
          (Inr (os_path_join output_dir (base_name @ ''_report.txt'')),
           fs(os_path_join output_dir (base_name @ ''_report.txt'') \<mapsto> RegFile [])))\<rparr>"

definition failing_tools :: tools where
  "failing_tools =
     working_tools\<lparr>run_kraken2 := (\<lambda>forward reverse base_name db output_dir threads fs.
          (Inl (PyExn OtherException ''kraken2 exited with status 2''), fs))\<rparr>"

text \<open>A standard output that cannot encode what it is given.\<close>

definition broken_console :: console where
  "broken_console = (\<lambda>line. Some (PyExn OtherException ''codec cannot encode character''))"

definition interrupted_tools :: tools where
  "interrupted_tools =
     working_tools\<lparr>run_trimmomatic := (\<lambda>forward reverse base_name output_dir threads fs.
          (Inl (PyExn KeyboardInterrupt []), fs))\<rparr>"

section \<open>Auxiliary facts\<close>

subsection \<open>Splitting and joining\<close>

declare str_nat.simps [simp del]

lemma split_on_not_Nil [simp]: "split_on c s \<noteq> []"
  by (induction s) (auto split: list.splits)

lemma split_on_no_sep: "w \<in> set (split_on c s) \<Longrightarrow> c \<notin> set w"
proof (induction s arbitrary: w)
  case Nil
  then show ?case by simp
next
  case (Cons x xs)
  show ?case
  proof (cases "x = c")
    case True
    with Cons show ?thesis by auto
  next
    case False
    obtain v vs where vs: "split_on c xs = v # vs"
      by (cases "split_on c xs") auto
    with False Cons.prems have "w = x # v \<or> w \<in> set vs" by auto
    with Cons.IH vs False show ?thesis by auto
  qed
qed

lemma py_join_split_on: "py_join [c] (split_on c s) = s"
proof (induction s)
  case Nil
  then show ?case by simp
next
  case (Cons x xs)
  obtain v vs where vs: "split_on c xs = v # vs"
    by (cases "split_on c xs") auto
  with Cons show ?case by (cases vs) auto
qed

lemma split_on_absent: "c \<notin> set r \<Longrightarrow> split_on c r = [r]"
  by (induction r) auto

lemma split_on_append_sep: "split_on c (p @ c # r) = split_on c p @ split_on c r"
proof (induction p)
  case Nil
  then show ?case by simp
next
  case (Cons x xs)
  obtain v vs where vs: "split_on c xs = v # vs"
    by (cases "split_on c xs") auto
  with Cons show ?case by auto
qed

lemma split_on_py_join:
  "ws \<noteq> [] \<Longrightarrow> \<forall>w \<in> set ws. c \<notin> set w \<Longrightarrow> split_on c (py_join [c] ws) = ws"
proof (induction ws)
  case Nil
  then show ?case by simp
next
  case (Cons w ws)
  show ?case
  proof (cases ws)
    case Nil
    with Cons.prems show ?thesis by (simp add: split_on_absent)
  next
    case (Cons v vs)
    with Cons.IH Cons.prems have "split_on c (py_join [c] ws) = ws" by simp
    moreover from Cons.prems have "split_on c w = [w]" by (simp add: split_on_absent)
    moreover from Cons have "py_join [c] (w # ws) = w @ c # py_join [c] ws" by simp
    ultimately show ?thesis by (simp add: split_on_append_sep)
  qed
qed

lemma extracted_part_report:
  assumes "endswith file_name ''_report.txt''"
  shows "extracted_part file_name @ ''_report.txt'' = file_name"
proof -
  define p where "p = take (length file_name - length ''_report.txt'') file_name"
  from assms have "drop (length file_name - length ''_report.txt'') file_name = ''_report.txt''"
    unfolding endswith_def by blast
  then have "file_name = p @ ''_report.txt''"
    unfolding p_def by (metis append_take_drop_id)
  then have fn: "file_name = p @ CHR ''_'' # ''report.txt''" by simp
  have "split_on (CHR ''_'') file_name = split_on (CHR ''_'') p @ [''report.txt'']"
    unfolding fn by (simp add: split_on_append_sep)
  then have "extracted_part file_name = p"
    by (simp add: extracted_part_def py_join_split_on)
  then show ?thesis using fn by simp
qed


subsection \<open>The scan as a fold\<close>

lemma id_values_Inr: "id_values md = Inr ids \<Longrightarrow> ids = first_cells md"
  by (simp add: id_values_def split: if_splits)

lemma sample_metadata_row_Inr:
  "PyStr s \<in> set (first_cells md) \<Longrightarrow> \<exists>d. sample_metadata_row md s = Inr d"
proof -
  assume "PyStr s \<in> set (first_cells md)"
  then obtain r where r: "r \<in> set (rows md)" and "PyStr s \<in> set (take 1 r)"
    by (auto simp: first_cells_def)
  from this(2) have "take 1 r = [PyStr s]" by (cases r) auto
  with r have "find (\<lambda>r. take 1 r = [PyStr s]) (rows md) \<noteq> None"
    by (auto simp: find_None_iff)
  then show ?thesis by (auto simp: sample_metadata_row_def)
qed

lemma first_cells_iff:
  "PyStr s \<in> set (first_cells md) \<longleftrightarrow> (\<exists>m \<in> set (rows md). take 1 m = [PyStr s])"
proof
  assume "PyStr s \<in> set (first_cells md)"
  then obtain m where m: "m \<in> set (rows md)" and "PyStr s \<in> set (take 1 m)"
    by (auto simp: first_cells_def)
  from this(2) have "take 1 m = [PyStr s]" by (cases m) auto
  with m show "\<exists>m \<in> set (rows md). take 1 m = [PyStr s]" by blast
next
  assume "\<exists>m \<in> set (rows md). take 1 m = [PyStr s]"
  then obtain m where "m \<in> set (rows md)" "take 1 m = [PyStr s]" by blast
  then have "PyStr s \<in> set (take 1 m)" by simp
  with \<open>m \<in> set (rows md)\<close> show "PyStr s \<in> set (first_cells md)"
    unfolding first_cells_def by auto
qed

lemma process_line_Inr:
  assumes "process_line md rc n st l = Inr st'"
  shows "well_formed_row l \<and> st' = apply_row md rc st (n, l)"
  using assms
  unfolding process_line_def well_formed_row_def apply_row_def row_selected_def
    row_key_def row_record_def direct_count_def rank_code_def taxon_id_def row_fields_def
    first_cells_iff[symmetric]
  by (auto simp: Let_def dest: id_values_Inr split: if_splits option.splits sum.splits)


lemma scan_lines_Inr:
  "scan_lines md rc n st ls = Inr st' \<Longrightarrow>
     st' = foldl (apply_row md rc) st (map (Pair n) ls) \<and> (\<forall>l \<in> set ls. well_formed_row l)"
proof (induction ls arbitrary: st)
  case Nil
  then show ?case by simp
next
  case (Cons l ls)
  from Cons.prems obtain st1 where
    step: "process_line md rc n st l = Inr st1" and rest: "scan_lines md rc n st1 ls = Inr st'"
    by (auto split: sum.splits)
  from process_line_Inr[OF step] Cons.IH[OF rest] show ?case by simp
qed

lemma open_read_Inr:
  "open_read fs p = Inr ls \<Longrightarrow> lines_of fs p = ls \<and> (\<exists>c. fs p = Some (RegFile c))"
  by (auto simp: open_read_def lines_of_def split: option.splits node.splits)

lemma scan_reports_Inr:
  "scan_reports fs dir md rc st names = Inr st' \<Longrightarrow>
     st' = foldl (apply_row md rc) st (report_rows fs dir names)
     \<and> (\<forall>r \<in> set (report_rows fs dir names). well_formed_row (snd r))
     \<and> (\<forall>n \<in> set names. is_report n \<longrightarrow> (\<exists>c. fs (os_path_join dir n) = Some (RegFile c)))"
proof (induction names arbitrary: st)
  case Nil
  then show ?case by (simp add: report_rows_def)
next
  case (Cons n names)
  show ?case
  proof (cases "is_report n")
    case False
    with Cons.prems have "scan_reports fs dir md rc st names = Inr st'"
      by (simp add: is_report_def)
    from Cons.IH[OF this] False show ?thesis by (simp add: report_rows_def)
  next
    case True
    with Cons.prems obtain ls st1 where
      opened: "open_read fs (os_path_join dir n) = Inr ls" and
      lines: "scan_lines md rc n st ls = Inr st1" and
      rest: "scan_reports fs dir md rc st1 names = Inr st'"
      by (auto simp: is_report_def split: sum.splits)
    from open_read_Inr[OF opened] scan_lines_Inr[OF lines] Cons.IH[OF rest] True
    show ?thesis by (auto simp: report_rows_def)
  qed
qed

lemma scan_reports_filter:
  "scan_reports fs dir md rc st (filter is_report names) = scan_reports fs dir md rc st names"
  by (induction names arbitrary: st) (auto simp: is_report_def split: sum.splits)

lemma scan_reports_no_report:
  "filter is_report names = [] \<Longrightarrow> scan_reports fs dir md rc st names = Inr st"
  using scan_reports_filter[of fs dir md rc st names] by simp

subsection \<open>What the fold yields\<close>

lemma snd_foldl_apply_row:
  "snd (foldl (apply_row md rc) st rs) = snd st @ map (\<lambda>r. extracted_part (fst r)) rs"
  by (induction rs arbitrary: st) (auto simp: apply_row_def)

lemma distinct_update_key: "distinct (map fst al) \<Longrightarrow> distinct (map fst (AList.update k v al))"
  by (simp add: distinct_update)

lemma distinct_foldl_apply_row:
  "distinct (map fst (fst st)) \<Longrightarrow> distinct (map fst (fst (foldl (apply_row md rc) st rs)))"
  by (induction rs arbitrary: st) (auto simp: apply_row_def distinct_update)

lemma find_append_cases:
  "find P (xs @ ys) = (case find P xs of None \<Rightarrow> find P ys | Some x \<Rightarrow> Some x)"
  by (induction xs) auto

lemma map_of_apply_row:
  "map_of (fst (apply_row md rc st r)) k =
     (if row_selected md rc r \<and> row_key r = k then Some (row_record md r)
      else map_of (fst st) k)"
  by (simp add: apply_row_def update_conv')

lemma map_of_foldl_apply_row:
  "map_of (fst (foldl (apply_row md rc) st rs)) k =
     (case find (\<lambda>r. row_key r = k) (rev (filter (row_selected md rc) rs)) of
        None \<Rightarrow> map_of (fst st) k
      | Some r \<Rightarrow> Some (row_record md r))"
proof (induction rs arbitrary: st)
  case Nil
  then show ?case by simp
next
  case (Cons r rs)
  have "map_of (fst (foldl (apply_row md rc) st (r # rs))) k =
          (case find (\<lambda>r. row_key r = k) (rev (filter (row_selected md rc) rs)) of
             None \<Rightarrow> map_of (fst (apply_row md rc st r)) k
           | Some r \<Rightarrow> Some (row_record md r))"
    using Cons.IH[of "apply_row md rc st r"] by simp
  then show ?case
    by (simp add: map_of_apply_row find_append_cases split: option.splits)
qed


lemma find_Some_D: "find P xs = Some x \<Longrightarrow> x \<in> set xs \<and> P x"
  by (induction xs) (auto split: if_splits)

lemma find_None_D: "find P xs = None \<Longrightarrow> x \<in> set xs \<Longrightarrow> \<not> P x"
  by (induction xs) (auto split: if_splits)

lemma selected_key_present:
  assumes "r \<in> set rs" and "row_selected md rc r"
  shows "row_key r \<in> fst ` set (fst (foldl (apply_row md rc) st rs))"
proof -
  have "\<exists>q. q \<in> set (rev (filter (row_selected md rc) rs)) \<and> row_key q = row_key r"
    using assms by (intro exI[of _ r]) simp
  then have "find (\<lambda>q. row_key q = row_key r) (rev (filter (row_selected md rc) rs)) \<noteq> None"
    by (simp only: find_None_iff not_not)
  then have "map_of (fst (foldl (apply_row md rc) st rs)) (row_key r) \<noteq> None"
    by (auto simp: map_of_foldl_apply_row split: option.splits)
  then show ?thesis by (simp add: map_of_eq_None_iff)
qed

lemma record_from_selected_row:
  assumes "(k, d) \<in> set (fst (foldl (apply_row md rc) ([], ids0) rs))"
  shows "\<exists>r \<in> set rs. row_selected md rc r \<and> k = row_key r \<and> d = row_record md r"
proof -
  have "distinct (map fst (fst (foldl (apply_row md rc) ([], ids0) rs)))"
    by (rule distinct_foldl_apply_row) simp
  with assms have "map_of (fst (foldl (apply_row md rc) ([], ids0) rs)) k = Some d"
    by simp
  then obtain r where
    "find (\<lambda>q. row_key q = k) (rev (filter (row_selected md rc) rs)) = Some r"
    and d: "d = row_record md r"
    by (auto simp: map_of_foldl_apply_row split: option.splits)
  from find_Some_D[OF this(1)] d show ?thesis by auto
qed

subsection \<open>The write phase\<close>

lemma join_relative:
  "name \<noteq> [] \<Longrightarrow> hd name \<noteq> CHR ''/'' \<Longrightarrow>
     os_path_join dir name = (if dir = [] \<or> last dir = CHR ''/'' then dir else dir @ ''/'') @ name"
  by (simp add: os_path_join_def)

lemma output_paths_differ:
  "os_path_join dir ''merged_kraken1.tsv'' \<noteq> os_path_join dir ''sample_ids.csv''"
  by (simp add: join_relative)

lemma open_write_cases:
  "open_write fs p = Inr fs' \<longleftrightarrow> (\<forall>es. fs p \<noteq> Some (Directory es)) \<and> fs' = fs(p \<mapsto> RegFile [])"
  by (auto simp: open_write_def split: option.splits node.splits)

lemma open_write_Inl_D: "open_write fs p = Inl e \<Longrightarrow> \<exists>es. fs p = Some (Directory es)"
  by (auto simp: open_write_def split: option.splits node.splits)

lemma aggregate_body_Inr:
  "aggregate_body pd fs dir mf df rc = (Inr p, fs') \<longleftrightarrow>
     (\<exists>md names agg ids written.
        resolve_metadata pd fs mf df = Inr md
        \<and> os_listdir fs dir = Inr names
        \<and> scan_reports fs dir md rc ([], []) names = Inr (agg, ids)
        \<and> merged_rows (headers md) agg = (written, None)
        \<and> (\<forall>es. fs (os_path_join dir ''merged_kraken1.tsv'') \<noteq> Some (Directory es))
        \<and> (\<forall>es. fs (os_path_join dir ''sample_ids.csv'') \<noteq> Some (Directory es))
        \<and> p = os_path_join dir ''merged_kraken1.tsv''
        \<and> fs' = fs(os_path_join dir ''merged_kraken1.tsv'' \<mapsto>
                     RegFile (file_text (py_join [TAB] (headers md) # written)),
                   os_path_join dir ''sample_ids.csv'' \<mapsto>
                     RegFile (to_csv pd ''Sample_IDs'' ids)))"
  (is "?L \<longleftrightarrow> ?R")
proof
  assume ?L
  then show ?R
    unfolding aggregate_body_def write_merged_def write_sample_ids_def Let_def
    using output_paths_differ[of dir]
    by (auto simp: open_write_cases split: sum.splits prod.splits option.splits)
next
  assume ?R
  then obtain md names agg ids written where h:
    "resolve_metadata pd fs mf df = Inr md"
    "os_listdir fs dir = Inr names"
    "scan_reports fs dir md rc ([], []) names = Inr (agg, ids)"
    "merged_rows (headers md) agg = (written, None)"
    "\<forall>es. fs (os_path_join dir ''merged_kraken1.tsv'') \<noteq> Some (Directory es)"
    "\<forall>es. fs (os_path_join dir ''sample_ids.csv'') \<noteq> Some (Directory es)"
    "p = os_path_join dir ''merged_kraken1.tsv''"
    "fs' = fs(os_path_join dir ''merged_kraken1.tsv'' \<mapsto>
                     RegFile (file_text (py_join [TAB] (headers md) # written)),
                   os_path_join dir ''sample_ids.csv'' \<mapsto>
                     RegFile (to_csv pd ''Sample_IDs'' ids))"
    by blast
  have w1: "open_write fs (os_path_join dir ''merged_kraken1.tsv'')
              = Inr (fs(os_path_join dir ''merged_kraken1.tsv'' \<mapsto> RegFile []))"
    using h(5) by (simp add: open_write_cases)
  have w2: "open_write (fs(os_path_join dir ''merged_kraken1.tsv'' \<mapsto> c))
              (os_path_join dir ''sample_ids.csv'')
              = Inr (fs(os_path_join dir ''merged_kraken1.tsv'' \<mapsto> c,
                        os_path_join dir ''sample_ids.csv'' \<mapsto> RegFile []))" for c
    using h(6) output_paths_differ[of dir] by (simp add: open_write_cases)
  show ?L
    unfolding aggregate_body_def write_merged_def write_sample_ids_def Let_def
    by (simp add: h w1 w2)
qed

subsection \<open>A successful aggregation, taken apart\<close>

lemma aggregate_outcome_Some:
  assumes "outcome_of (aggregate_kraken_results pd fs dir mf df rc) = Returns (Some p)"
  shows "aggregate_body pd fs dir mf df rc
           = (Inr p, files_after (aggregate_kraken_results pd fs dir mf df rc))"
proof -
  obtain r fs' where body: "aggregate_body pd fs dir mf df rc = (r, fs')"
    by (cases "aggregate_body pd fs dir mf df rc") auto
  with assms show ?thesis
    by (cases r) (auto simp: aggregate_kraken_results_def split: if_splits)
qed

lemma merged_rows_None_length:
  "merged_rows hs agg = (written, None) \<Longrightarrow> length written = length agg"
  by (induction hs agg arbitrary: written rule: merged_rows.induct)
     (auto split: sum.splits prod.splits)

lemma file_text_Cons: "file_text (l # ls) = l @ [NL] @ file_text ls"
  by (simp add: file_text_def)

lemma aggregate_success:
  assumes "outcome_of (aggregate_kraken_results pd fs dir mf df rc) = Returns (Some p)"
  obtains md names agg ids written where
    "resolve_metadata pd fs mf df = Inr md"
    "os_listdir fs dir = Inr names"
    "scan_reports fs dir md rc ([], []) names = Inr (agg, ids)"
    "merged_rows (headers md) agg = (written, None)"
    "p = os_path_join dir ''merged_kraken1.tsv''"
    "files_after (aggregate_kraken_results pd fs dir mf df rc) p
       = Some (RegFile (file_text (py_join [TAB] (headers md) # written)))"
    "files_after (aggregate_kraken_results pd fs dir mf df rc)
         (os_path_join dir ''sample_ids.csv'')
       = Some (RegFile (to_csv pd ''Sample_IDs'' ids))"
proof -
  from aggregate_outcome_Some[OF assms] obtain md names agg ids written where h:
    "resolve_metadata pd fs mf df = Inr md"
    "os_listdir fs dir = Inr names"
    "scan_reports fs dir md rc ([], []) names = Inr (agg, ids)"
    "merged_rows (headers md) agg = (written, None)"
    "p = os_path_join dir ''merged_kraken1.tsv''"
    "files_after (aggregate_kraken_results pd fs dir mf df rc)
       = fs(os_path_join dir ''merged_kraken1.tsv'' \<mapsto>
              RegFile (file_text (py_join [TAB] (headers md) # written)),
            os_path_join dir ''sample_ids.csv'' \<mapsto>
              RegFile (to_csv pd ''Sample_IDs'' ids))"
    unfolding aggregate_body_Inr by blast
  from h(5,6) output_paths_differ[of dir] have
    "files_after (aggregate_kraken_results pd fs dir mf df rc) p
       = Some (RegFile (file_text (py_join [TAB] (headers md) # written)))"
    by simp
  moreover from h(6) have
    "files_after (aggregate_kraken_results pd fs dir mf df rc)
         (os_path_join dir ''sample_ids.csv'')
       = Some (RegFile (to_csv pd ''Sample_IDs'' ids))"
    by simp
  ultimately show thesis using h(1-5) that by blast
qed

lemma demo_metadata_resolved:
  "resolve_metadata demo_pandas demo_files (Some ''meta.csv'') None = Inr demo_metadata"
  by code_simp

lemma demo_listing: "os_listdir demo_files ''k'' = Inr demo_names"
  by code_simp

lemma demo_rows:
  "report_rows demo_files ''k'' demo_names
     = [(''s1_report.txt'', human_row), (''s1_report.txt'', genus_row),
        (''s1_report.txt'', human_row_later), (''x9_report.txt'', coli_row)]"
  by code_simp

lemma demo_scan:
  "scan_reports demo_files ''k'' demo_metadata 30 ([], []) demo_names
     = Inr ([(''s19606'', row_record demo_metadata (''s1_report.txt'', human_row_later))],
            [''s1'', ''s1'', ''s1'', ''x9''])"
  by code_simp

lemma demo_run:
  "outcome_of (aggregate_kraken_results demo_pandas demo_files ''k'' (Some ''meta.csv'') None 30)
     = Returns (Some ''k/merged_kraken1.tsv'')"
  by code_simp

lemma file_text_single: "file_text [l] = l @ [NL]"
  by (simp add: file_text_def)

lemma nothing_selected_empty:
  assumes "scan_reports fs dir md rc ([], []) names = Inr (agg, ids)"
    and "\<forall>r \<in> set (report_rows fs dir names). \<not> row_selected md rc r"
  shows "agg = []"
proof (rule ccontr)
  assume "agg \<noteq> []"
  then obtain k d where kd: "(k, d) \<in> set agg"
    by (cases agg) auto
  from scan_reports_Inr[OF assms(1)] have
    "(agg, ids) = foldl (apply_row md rc) ([], []) (report_rows fs dir names)"
    by simp
  then have "agg = fst (foldl (apply_row md rc) ([], []) (report_rows fs dir names))"
    by (metis fst_conv)
  with kd have "(k, d) \<in> set (fst (foldl (apply_row md rc) ([], []) (report_rows fs dir names)))"
    by simp
  from record_from_selected_row[OF this] assms(2) show False by blast
qed

subsection \<open>Text without tab characters\<close>

lemma digit_char_not_TAB: "n < 10 \<Longrightarrow> char_of (48 + n :: nat) \<noteq> TAB"
proof
  assume n: "n < 10" and eq: "char_of (48 + n) = TAB"
  from eq have "(of_char (char_of (48 + n)) :: nat) = of_char TAB" by simp
  with n show False by simp
qed

lemma str_nat_no_TAB: "TAB \<notin> set (str_nat n)"
proof (induction n rule: str_nat.induct)
  case (1 n)
  show ?case
  proof (cases "n < 10")
    case True
    then show ?thesis
      using digit_char_not_TAB[of n] by (subst str_nat.simps) auto
  next
    case False
    have "n mod 10 < 10" by simp
    from digit_char_not_TAB[OF this] 1[OF False] False show ?thesis
      by (subst str_nat.simps) auto
  qed
qed

lemma str_int_no_TAB: "TAB \<notin> set (str_int i)"
  by (simp add: str_int_def str_nat_no_TAB)

lemma row_fields_no_TAB: "i < length (row_fields l) \<Longrightarrow> TAB \<notin> set (row_fields l ! i)"
proof -
  assume "i < length (row_fields l)"
  then have "row_fields l ! i \<in> set (split_on TAB (py_strip l))"
    by (simp add: row_fields_def)
  then show ?thesis by (rule split_on_no_sep)
qed

lemma update_entries:
  "(k, v) \<in> set (AList.update k' v' al) \<Longrightarrow> (k, v) = (k', v') \<or> (k, v) \<in> set al"
  by (induction al) (auto split: if_splits)

lemma dict_update_all_entries:
  "(k, v) \<in> set (dict_update_all items d) \<Longrightarrow> (k, v) \<in> set items \<or> (k, v) \<in> set d"
  unfolding dict_update_all_def
proof (induction items arbitrary: d)
  case Nil
  then show ?case by simp
next
  case (Cons item items)
  obtain k' v' where item: "item = (k', v')" by (cases item)
  from Cons.prems have
    "(k, v) \<in> set (foldl (\<lambda>acc (k, v). AList.update k v acc) (AList.update k' v' d) items)"
    by (simp add: item)
  from Cons.IH[OF this] show ?case
    by (auto simp: item dest: update_entries)
qed

lemma sample_metadata_row_cells:
  assumes "sample_metadata_row md s = Inr d" and "(k, v) \<in> set d"
  shows "\<exists>r \<in> set (rows md). v \<in> set r"
proof -
  from assms(1) obtain r where
    found: "find (\<lambda>r. take 1 r = [PyStr s]) (rows md) = Some r"
    and d: "d = dict_update_all (zip (columns md) r) []"
    by (auto simp: sample_metadata_row_def split: option.splits)
  from assms(2) d have "(k, v) \<in> set (zip (columns md) r)"
    by (auto dest: dict_update_all_entries)
  then have "v \<in> set r" by (rule set_zip_rightD)
  moreover from find_Some_D[OF found] have "r \<in> set (rows md)" by simp
  ultimately show ?thesis by blast
qed

lemma first_cells_cells: "c \<in> set (first_cells md) \<Longrightarrow> \<exists>r \<in> set (rows md). c \<in> set r"
  by (auto simp: first_cells_def dest: in_set_takeD)

lemma row_record_no_TAB:
  assumes cells: "tab_free_cells md"
    and wf: "well_formed_row (snd r)"
    and sel: "row_selected md rc r"
    and kv: "(k, v) \<in> set (row_record md r)"
  shows "TAB \<notin> set (py_str v)"
proof -
  from wf have len: "6 \<le> length (row_fields (snd r))"
    by (simp add: well_formed_row_def)
  from sel have "PyStr (extracted_part (fst r)) \<in> set (first_cells md)"
    by (simp add: row_selected_def first_cells_iff)
  from first_cells_cells[OF this] cells have sample: "TAB \<notin> set (extracted_part (fst r))"
    by (fastforce simp: tab_free_cells_def)
  have meta: "TAB \<notin> set (py_str v)"
    if "(k, v) \<in> set (case sample_metadata_row md (extracted_part (fst r)) of
                          Inl e \<Rightarrow> [] | Inr sample_metadata \<Rightarrow> sample_metadata)"
  proof (cases "sample_metadata_row md (extracted_part (fst r))")
    case (Inl e)
    with that show ?thesis by simp
  next
    case (Inr d)
    with that have "(k, v) \<in> set d" by simp
    from sample_metadata_row_cells[OF Inr this] cells show ?thesis
      by (auto simp: tab_free_cells_def)
  qed
  from kv have
    "(k, v) \<in> set (case sample_metadata_row md (extracted_part (fst r)) of
                      Inl e \<Rightarrow> [] | Inr sample_metadata \<Rightarrow> sample_metadata)
     \<or> (k, v) \<in> set [(''Perc_frag_cover'', PyStr (row_fields (snd r) ! 0)),
          (''Nr_frag_cover'', PyStr (row_fields (snd r) ! 1)),
          (''Nr_frag_direct_at_taxon'',
             PyInt (case direct_count (snd r) of None \<Rightarrow> 0 | Some c \<Rightarrow> c)),
          (''Rank_code'', PyStr (rank_code (snd r))),
          (''NCBI_ID'', PyStr (taxon_id (snd r))),
          (''Scientific_name'', PyStr (row_fields (snd r) ! 5)),
          (''SampleID'', PyStr (extracted_part (fst r)))]"
    unfolding row_record_def build_record_def by (rule dict_update_all_entries)
  then show ?thesis
  proof
    assume "(k, v) \<in> set (case sample_metadata_row md (extracted_part (fst r)) of
                      Inl e \<Rightarrow> [] | Inr sample_metadata \<Rightarrow> sample_metadata)"
    then show ?thesis by (rule meta)
  next
    assume "(k, v) \<in> set [(''Perc_frag_cover'', PyStr (row_fields (snd r) ! 0)),
          (''Nr_frag_cover'', PyStr (row_fields (snd r) ! 1)),
          (''Nr_frag_direct_at_taxon'',
             PyInt (case direct_count (snd r) of None \<Rightarrow> 0 | Some c \<Rightarrow> c)),
          (''Rank_code'', PyStr (rank_code (snd r))),
          (''NCBI_ID'', PyStr (taxon_id (snd r))),
          (''Scientific_name'', PyStr (row_fields (snd r) ! 5)),
          (''SampleID'', PyStr (extracted_part (fst r)))]"
    then have "v \<in> {PyStr (row_fields (snd r) ! 0), PyStr (row_fields (snd r) ! 1),
                    PyInt (case direct_count (snd r) of None \<Rightarrow> 0 | Some c \<Rightarrow> c),
                    PyStr (row_fields (snd r) ! 3), PyStr (row_fields (snd r) ! 4),
                    PyStr (row_fields (snd r) ! 5), PyStr (extracted_part (fst r))}"
      by (auto simp: rank_code_def taxon_id_def)
    moreover have "TAB \<notin> set (row_fields (snd r) ! i)" if "i < 6" for i
      using that len by (intro row_fields_no_TAB) simp
    from this[of 0] this[of 1] this[of 3] this[of 4] this[of 5]
    have "TAB \<notin> set (row_fields (snd r) ! 0)" "TAB \<notin> set (row_fields (snd r) ! 1)"
      "TAB \<notin> set (row_fields (snd r) ! 3)" "TAB \<notin> set (row_fields (snd r) ! 4)"
      "TAB \<notin> set (row_fields (snd r) ! 5)"
      by simp_all
    ultimately show ?thesis
      using sample by (auto simp: str_int_no_TAB)
  qed
qed

lemma row_values_no_TAB:
  "row_values d hs = Inr vs \<Longrightarrow> \<forall>(k, v) \<in> set d. TAB \<notin> set (py_str v) \<Longrightarrow>
     length vs = length hs \<and> (\<forall>v \<in> set vs. TAB \<notin> set v)"
proof (induction hs arbitrary: vs)
  case Nil
  then show ?case by simp
next
  case (Cons h hs)
  from Cons.prems(1) obtain v vs' where
    v: "map_of d h = Some v" and rest: "row_values d hs = Inr vs'" and vs: "vs = py_str v # vs'"
    by (auto split: option.splits sum.splits)
  from v have "(h, v) \<in> set d" by (rule map_of_SomeD)
  with Cons.prems(2) have "TAB \<notin> set (py_str v)" by auto
  with Cons.IH[OF rest Cons.prems(2)] vs show ?case by simp
qed

lemma merged_rows_field_count:
  "merged_rows hs agg = (written, None) \<Longrightarrow> hs \<noteq> [] \<Longrightarrow>
     \<forall>(key, d) \<in> set agg. \<forall>(k, v) \<in> set d. TAB \<notin> set (py_str v) \<Longrightarrow>
     \<forall>row \<in> set written. length (split_on TAB row) = length hs"
proof (induction hs agg arbitrary: written rule: merged_rows.induct)
  case (1 hs)
  then show ?case by simp
next
  case (2 hs key data rest)
  from "2.prems"(1) obtain vs written' where
    vs: "row_values data hs = Inr vs"
    and rest: "merged_rows hs rest = (written', None)"
    and written: "written = py_join [TAB] vs # written'"
    by (auto split: sum.splits prod.splits)
  from "2.prems"(3) have free: "\<forall>(k, v) \<in> set data. TAB \<notin> set (py_str v)" by simp
  from row_values_no_TAB[OF vs free] "2.prems"(2) have
    "vs \<noteq> []" "\<forall>v \<in> set vs. TAB \<notin> set v" "length vs = length hs"
    by auto
  then have "length (split_on TAB (py_join [TAB] vs)) = length hs"
    by (simp add: split_on_py_join)
  moreover from "2.IH"[OF vs rest "2.prems"(2)] "2.prems"(3) have
    "\<forall>row \<in> set written'. length (split_on TAB row) = length hs"
    by simp
  ultimately show ?case by (simp add: written)
qed


lemma headers_not_Nil: "headers md \<noteq> []"
  by (simp add: headers_def fixed_headers_def)

subsection \<open>The content of a record and of a line\<close>

lemma map_of_dict_update_all:
  "map_of (dict_update_all items d) = map_of d ++ map_of (rev items)"
  unfolding dict_update_all_def
proof (induction items arbitrary: d)
  case Nil
  then show ?case by simp
next
  case (Cons item items)
  obtain k v where item: "item = (k, v)" by (cases item)
  have "map_of (foldl (\<lambda>acc (k, v). AList.update k v acc) d (item # items))
          = map_of (AList.update k v d) ++ map_of (rev items)"
    using Cons.IH[of "AList.update k v d"] by (simp add: item)
  also have "\<dots> = map_of d ++ map_of (rev (item # items))"
    by (rule ext) (simp add: item update_conv' map_add_def split: option.splits)
  finally show ?case .
qed

lemma distinct_dict_update_all:
  "distinct (map fst d) \<Longrightarrow> distinct (map fst (dict_update_all items d))"
  unfolding dict_update_all_def
  by (induction items arbitrary: d) (auto simp: distinct_update)

lemma map_of_rev_distinct:
  assumes "distinct (map fst al)"
  shows "map_of (rev al) = map_of al"
proof -
  from assms have "distinct (map fst (rev al))"
    by (simp add: rev_map[symmetric])
  from map_of_inject_set[OF this assms] show ?thesis by simp
qed

lemma sample_metadata_row_map:
  "sample_metadata_row md s = Inr d \<Longrightarrow>
     \<exists>m. find (\<lambda>row. take 1 row = [PyStr s]) (rows md) = Some m
        \<and> distinct (map fst d) \<and> map_of d = map_of (rev (zip (columns md) m))"
  by (auto simp: sample_metadata_row_def map_of_dict_update_all distinct_dict_update_all
        split: option.splits)

lemma row_record_content:
  assumes "row_selected md rc (n, l)"
  shows "\<exists>m. find (\<lambda>row. take 1 row = [PyStr (extracted_part n)]) (rows md) = Some m
           \<and> map_of (row_record md (n, l))
               = map_of (report_pairs n l) ++ map_of (rev (zip (columns md) m))"
proof -
  from assms have "PyStr (extracted_part n) \<in> set (first_cells md)"
    by (simp add: row_selected_def first_cells_iff)
  from sample_metadata_row_Inr[OF this] obtain d where
    d: "sample_metadata_row md (extracted_part n) = Inr d" by blast
  from sample_metadata_row_map[OF d] obtain m where
    m: "find (\<lambda>row. take 1 row = [PyStr (extracted_part n)]) (rows md) = Some m"
    and dd: "distinct (map fst d)" "map_of d = map_of (rev (zip (columns md) m))"
    by blast
  have "map_of (row_record md (n, l)) = map_of (report_pairs n l) ++ map_of (rev d)"
    by (simp add: row_record_def build_record_def d map_of_dict_update_all
          rank_code_def taxon_id_def)
  with dd m show ?thesis by (simp add: map_of_rev_distinct)
qed

lemma row_values_explicit:
  "row_values d hs = Inr vs \<Longrightarrow>
     vs = map (\<lambda>c. case map_of d c of None \<Rightarrow> [] | Some v \<Rightarrow> py_str v) hs"
  by (induction hs arbitrary: vs) (auto split: option.splits sum.splits)

lemma merged_rows_explicit:
  "merged_rows hs agg = (written, None) \<Longrightarrow> written = map (\<lambda>(k, d). table_line hs d) agg"
  by (induction hs agg arbitrary: written rule: merged_rows.induct)
     (auto split: sum.splits prod.splits dest: row_values_explicit)

subsection \<open>When the scan completes\<close>

lemma process_line_complete:
  assumes "well_formed_row l" and "count_list (columns md) (hd (columns md)) \<le> 1"
  shows "process_line md rc n st l = Inr (apply_row md rc st (n, l))"
proof -
  from assms(1) obtain c where len: "6 \<le> length (split_on TAB (py_strip l))"
    and c: "py_int (split_on TAB (py_strip l) ! 2) = Inr c"
    by (auto simp: well_formed_row_def direct_count_def row_fields_def split: sum.splits)
  from assms(2) have ids: "id_values md = Inr (first_cells md)"
    by (simp add: id_values_def)
  show ?thesis
  proof (cases "row_selected md rc (n, l)")
    case True
    then have mem: "PyStr (extracted_part n) \<in> set (first_cells md)"
      by (simp add: row_selected_def first_cells_iff)
    from sample_metadata_row_Inr[OF mem] obtain d where
      d: "sample_metadata_row md (extracted_part n) = Inr d" by blast
    from True have "split_on TAB (py_strip l) ! 3 = ''S''" "rc \<le> c"
      by (simp_all add: row_selected_def rank_code_def row_fields_def direct_count_def c)
    with True len c ids mem d show ?thesis
      by (simp add: process_line_def apply_row_def Let_def row_key_def row_record_def
            direct_count_def rank_code_def taxon_id_def row_fields_def)
  next
    case False
    then have "\<not> (split_on TAB (py_strip l) ! 3 = ''S'' \<and> rc \<le> c)
               \<or> PyStr (extracted_part n) \<notin> set (first_cells md)"
      by (auto simp: row_selected_def rank_code_def row_fields_def direct_count_def c
            first_cells_iff)
    with False len c ids show ?thesis
      by (auto simp: process_line_def apply_row_def Let_def)
  qed
qed

lemma scan_lines_complete:
  assumes "\<forall>l \<in> set ls. well_formed_row l"
    and "count_list (columns md) (hd (columns md)) \<le> 1"
  shows "scan_lines md rc n st ls = Inr (foldl (apply_row md rc) st (map (Pair n) ls))"
  using assms(1)
  by (induction ls arbitrary: st) (simp_all add: process_line_complete[OF _ assms(2)])

lemma scan_reports_complete:
  assumes "\<forall>n \<in> set names. is_report n \<longrightarrow> (\<exists>c. fs (os_path_join dir n) = Some (RegFile c))"
    and "\<forall>r \<in> set (report_rows fs dir names). well_formed_row (snd r)"
    and "count_list (columns md) (hd (columns md)) \<le> 1"
  shows "scan_reports fs dir md rc st names
           = Inr (foldl (apply_row md rc) st (report_rows fs dir names))"
  using assms(1,2)
proof (induction names arbitrary: st)
  case Nil
  then show ?case by (simp add: report_rows_def)
next
  case (Cons n names)
  show ?case
  proof (cases "is_report n")
    case False
    with Cons show ?thesis by (simp add: report_rows_def is_report_def)
  next
    case True
    with Cons.prems(1) obtain c where c: "fs (os_path_join dir n) = Some (RegFile c)"
      by auto
    then have opened: "open_read fs (os_path_join dir n)
                         = Inr (lines_of fs (os_path_join dir n))"
      by (simp add: open_read_def lines_of_def)
    have rows: "report_rows fs dir (n # names)
                  = map (Pair n) (lines_of fs (os_path_join dir n)) @ report_rows fs dir names"
      using True by (simp add: report_rows_def)
    have wf: "\<forall>l \<in> set (lines_of fs (os_path_join dir n)). well_formed_row l"
    proof
      fix l assume "l \<in> set (lines_of fs (os_path_join dir n))"
      then have "(n, l) \<in> set (report_rows fs dir (n # names))"
        unfolding rows by simp
      with Cons.prems(2) show "well_formed_row l" by fastforce
    qed
    from Cons.prems(2) have
      rest: "\<forall>r \<in> set (report_rows fs dir names). well_formed_row (snd r)"
      unfolding rows by simp
    from Cons.prems(1) have
      "\<forall>n \<in> set names. is_report n \<longrightarrow> (\<exists>c. fs (os_path_join dir n) = Some (RegFile c))"
      by simp
    from Cons.IH[OF this rest] True opened scan_lines_complete[OF wf assms(3)]
    show ?thesis
      by (simp add: report_rows_def is_report_def)
  qed
qed


subsection \<open>A successful aggregation, in full\<close>

lemma map_const_replicate: "map (\<lambda>x. k) xs = replicate (length xs) k"
  by (induction xs) auto

lemma ids_by_file:
  "map (\<lambda>r. extracted_part (fst r)) (report_rows fs dir names)
     = concat (map (\<lambda>n. replicate (length (lines_of fs (os_path_join dir n)))
                           (py_join ''_'' (butlast (split_on (CHR ''_'') n))))
                 (filter (\<lambda>n. endswith n ''_report.txt'') names))"
proof -
  have "(\<lambda>n. endswith n ''_report.txt'') = is_report"
    by (rule ext) (simp add: is_report_def)
  then show ?thesis
    by (simp add: report_rows_def map_concat comp_def map_const_replicate extracted_part_def)
qed

lemma aggregate_success_explicit:
  assumes "outcome_of (aggregate_kraken_results pd fs dir mf df rc) = Returns (Some p)"
  obtains md names agg ids where
    "resolve_metadata pd fs mf df = Inr md"
    "os_listdir fs dir = Inr names"
    "scan_reports fs dir md rc ([], []) names = Inr (agg, ids)"
    "p = os_path_join dir ''merged_kraken1.tsv''"
    "files_after (aggregate_kraken_results pd fs dir mf df rc) p
       = Some (RegFile (lines_text
           (py_join [TAB] (report_field_names @ tl (columns md))
            # map (\<lambda>(k, d). table_line (report_field_names @ tl (columns md)) d) agg)))"
    "files_after (aggregate_kraken_results pd fs dir mf df rc)
         (os_path_join dir ''sample_ids.csv'')
       = Some (RegFile (to_csv pd ''Sample_IDs'' ids))"
    "ids = map (\<lambda>r. extracted_part (fst r)) (report_rows fs dir names)"
    "\<forall>r \<in> set (report_rows fs dir names). well_formed_row (snd r)"
    "\<forall>n \<in> set names. endswith n ''_report.txt'' \<longrightarrow>
       (\<exists>c. fs (os_path_join dir n) = Some (RegFile c))"
    "distinct (map fst agg)"
    "\<forall>r \<in> set (report_rows fs dir names).
       row_selected md rc r \<longrightarrow> row_key r \<in> fst ` set agg"
    "\<forall>(k, d) \<in> set agg. \<exists>file_name line m.
        find (\<lambda>r. row_key r = k)
          (rev (filter (row_selected md rc) (report_rows fs dir names))) = Some (file_name, line)
        \<and> find (\<lambda>row. take 1 row = [PyStr (extracted_part file_name)]) (rows md) = Some m
        \<and> map_of d = map_of (report_pairs file_name line) ++ map_of (rev (zip (columns md) m))"
proof -
  from assms obtain md names agg ids written where h:
    "resolve_metadata pd fs mf df = Inr md"
    "os_listdir fs dir = Inr names"
    "scan_reports fs dir md rc ([], []) names = Inr (agg, ids)"
    "merged_rows (headers md) agg = (written, None)"
    "p = os_path_join dir ''merged_kraken1.tsv''"
    "files_after (aggregate_kraken_results pd fs dir mf df rc) p
       = Some (RegFile (file_text (py_join [TAB] (headers md) # written)))"
    "files_after (aggregate_kraken_results pd fs dir mf df rc)
         (os_path_join dir ''sample_ids.csv'')
       = Some (RegFile (to_csv pd ''Sample_IDs'' ids))"
    by (rule aggregate_success)
  let ?rows = "report_rows fs dir names"
  from scan_reports_Inr[OF h(3)] have
    fold: "(agg, ids) = foldl (apply_row md rc) ([], []) ?rows"
    and wf: "\<forall>r \<in> set ?rows. well_formed_row (snd r)"
    and readable: "\<forall>n \<in> set names. is_report n \<longrightarrow>
                     (\<exists>c. fs (os_path_join dir n) = Some (RegFile c))"
    by simp_all
  from fold have agg: "agg = fst (foldl (apply_row md rc) ([], []) ?rows)"
    and ids: "ids = snd (foldl (apply_row md rc) ([], []) ?rows)"
    by (metis fst_conv, metis snd_conv)
  have content: "files_after (aggregate_kraken_results pd fs dir mf df rc) p
       = Some (RegFile (lines_text
           (py_join [TAB] (report_field_names @ tl (columns md))
            # map (\<lambda>(k, d). table_line (report_field_names @ tl (columns md)) d) agg)))"
    using h(6) merged_rows_explicit[OF h(4)]
    by (simp add: file_text_def headers_def fixed_headers_def)
  have ids': "ids = map (\<lambda>r. extracted_part (fst r)) ?rows"
    unfolding ids by (simp add: snd_foldl_apply_row)
  have readable': "\<forall>n \<in> set names. endswith n ''_report.txt'' \<longrightarrow>
       (\<exists>c. fs (os_path_join dir n) = Some (RegFile c))"
    using readable by (simp add: is_report_def)
  have keys: "distinct (map fst agg)"
    unfolding agg by (rule distinct_foldl_apply_row) simp
  have present: "\<forall>r \<in> set ?rows. row_selected md rc r \<longrightarrow> row_key r \<in> fst ` set agg"
    unfolding agg by (blast intro: selected_key_present)
  have built: "\<exists>file_name line m.
        find (\<lambda>r. row_key r = k) (rev (filter (row_selected md rc) ?rows))
          = Some (file_name, line)
        \<and> find (\<lambda>row. take 1 row = [PyStr (extracted_part file_name)]) (rows md) = Some m
        \<and> map_of d = map_of (report_pairs file_name line) ++ map_of (rev (zip (columns md) m))"
    if "(k, d) \<in> set agg" for k d
  proof -
    from that keys have "map_of agg k = Some d" by simp
    then obtain r where
      r: "find (\<lambda>q. row_key q = k) (rev (filter (row_selected md rc) ?rows)) = Some r"
      and d: "d = row_record md r"
      unfolding agg by (auto simp: map_of_foldl_apply_row split: option.splits)
    obtain n l where nl: "r = (n, l)" by (cases r)
    from find_Some_D[OF r] have "row_selected md rc (n, l)" by (simp add: nl)
    from row_record_content[OF this] r d nl show ?thesis by blast
  qed
  then have built': "\<forall>(k, d) \<in> set agg. \<exists>file_name line m.
        find (\<lambda>r. row_key r = k) (rev (filter (row_selected md rc) ?rows))
          = Some (file_name, line)
        \<and> find (\<lambda>row. take 1 row = [PyStr (extracted_part file_name)]) (rows md) = Some m
        \<and> map_of d = map_of (report_pairs file_name line) ++ map_of (rev (zip (columns md) m))"
    by blast
  from h(1,2,3,5) content h(7) ids' wf readable' keys present built' show thesis
    by (rule that)
qed

section \<open>Properties of \<^verbatim>\<open>aggregate_kraken_results\<close>\<close>

text \<open>
  C1. In a run that returns the path of the merged table, every row read has its six
  fields and an integer count. The dictionary the scan leaves holds a record under the
  key of every row that has rank code \<^verbatim>\<open>S\<close>, a direct fragment count of at least
  \<^verbatim>\<open>read_count\<close> and a sample identifier that is the first cell of a metadata row.
  Every record of the dictionary was built from such a row, from its fields and the
  metadata row of its sample, so a row failing one of the three conditions contributes
  none. The merged table is the header line followed by one line for each record of the
  dictionary, the values of the record under the header names joined by tabs.
\<close>

theorem record_built_iff_row_selected:
  assumes "outcome_of (aggregate_kraken_results pd fs kraken_dir metadata_file sample_id_df
                         read_count) = Returns (Some p)"
  shows "\<exists>metadata names aggregated_results sampleid.
           resolve_metadata pd fs metadata_file sample_id_df = Inr metadata
         \<and> os_listdir fs kraken_dir = Inr names
         \<and> scan_reports fs kraken_dir metadata read_count ([], []) names
               = Inr (aggregated_results, sampleid)
         \<and> (\<forall>r \<in> set (report_rows fs kraken_dir names). well_formed_row (snd r))
         \<and> (\<forall>r \<in> set (report_rows fs kraken_dir names).
               row_selected metadata read_count r
                 \<longrightarrow> row_key r \<in> fst ` set aggregated_results)
         \<and> (\<forall>(k, d) \<in> set aggregated_results.
               \<exists>r \<in> set (report_rows fs kraken_dir names).
                 row_selected metadata read_count r
                 \<and> k = extracted_part (fst r) @ taxon_id (snd r)
                 \<and> (\<exists>m. find (\<lambda>row. take 1 row = [PyStr (extracted_part (fst r))])
                            (rows metadata) = Some m
                        \<and> map_of d = map_of (report_pairs (fst r) (snd r))
                                       ++ map_of (rev (zip (columns metadata) m))))
         \<and> files_after (aggregate_kraken_results pd fs kraken_dir metadata_file sample_id_df
                          read_count) p
               = Some (RegFile (lines_text
                   (py_join [TAB] (report_field_names @ tl (columns metadata))
                    # map (\<lambda>(k, d). table_line (report_field_names @ tl (columns metadata)) d)
                        aggregated_results)))"
proof -
  from assms obtain md names agg ids where h:
    "resolve_metadata pd fs metadata_file sample_id_df = Inr md"
    "os_listdir fs kraken_dir = Inr names"
    "scan_reports fs kraken_dir md read_count ([], []) names = Inr (agg, ids)"
    "files_after (aggregate_kraken_results pd fs kraken_dir metadata_file sample_id_df
        read_count) p
       = Some (RegFile (lines_text
           (py_join [TAB] (report_field_names @ tl (columns md))
            # map (\<lambda>(k, d). table_line (report_field_names @ tl (columns md)) d) agg)))"
    "\<forall>r \<in> set (report_rows fs kraken_dir names). well_formed_row (snd r)"
    "\<forall>r \<in> set (report_rows fs kraken_dir names).
       row_selected md read_count r \<longrightarrow> row_key r \<in> fst ` set agg"
    and built: "\<forall>(k, d) \<in> set agg. \<exists>file_name line m.
        find (\<lambda>r. row_key r = k)
          (rev (filter (row_selected md read_count) (report_rows fs kraken_dir names)))
          = Some (file_name, line)
        \<and> find (\<lambda>row. take 1 row = [PyStr (extracted_part file_name)]) (rows md) = Some m
        \<and> map_of d = map_of (report_pairs file_name line) ++ map_of (rev (zip (columns md) m))"
    by (rule aggregate_success_explicit)
  have from_row: "\<forall>(k, d) \<in> set agg.
               \<exists>r \<in> set (report_rows fs kraken_dir names).
                 row_selected md read_count r
                 \<and> k = extracted_part (fst r) @ taxon_id (snd r)
                 \<and> (\<exists>m. find (\<lambda>row. take 1 row = [PyStr (extracted_part (fst r))])
                            (rows md) = Some m
                        \<and> map_of d = map_of (report_pairs (fst r) (snd r))
                                       ++ map_of (rev (zip (columns md) m)))"
  proof (intro ballI, clarify)
    fix k d
    assume "(k, d) \<in> set agg"
    with built obtain n l m where
      f: "find (\<lambda>r. row_key r = k)
            (rev (filter (row_selected md read_count) (report_rows fs kraken_dir names)))
            = Some (n, l)"
      and m: "find (\<lambda>row. take 1 row = [PyStr (extracted_part n)]) (rows md) = Some m"
             "map_of d = map_of (report_pairs n l) ++ map_of (rev (zip (columns md) m))"
      by blast
    from find_Some_D[OF f] have
      "(n, l) \<in> set (report_rows fs kraken_dir names)" "row_selected md read_count (n, l)"
      "k = extracted_part n @ taxon_id l"
      by (auto simp: row_key_def)
    with m show "\<exists>r \<in> set (report_rows fs kraken_dir names).
                 row_selected md read_count r
                 \<and> k = extracted_part (fst r) @ taxon_id (snd r)
                 \<and> (\<exists>m. find (\<lambda>row. take 1 row = [PyStr (extracted_part (fst r))])
                            (rows md) = Some m
                        \<and> map_of d = map_of (report_pairs (fst r) (snd r))
                                       ++ map_of (rev (zip (columns md) m)))"
      by (intro bexI[of _ "(n, l)"]) auto
  qed
  from h(1,2,3) h(5,6) from_row h(4) show ?thesis
    by - (intro exI conjI, assumption+)
qed


lemma demo_header:
  "report_field_names @ tl (columns demo_metadata)
     = [''Perc_frag_cover'', ''Nr_frag_cover'', ''Nr_frag_direct_at_taxon'', ''Rank_code'',
        ''NCBI_ID'', ''Scientific_name'', ''SampleID'', ''site'']"
  by (simp add: demo_metadata_def)

lemma demo_lines:
  "map (\<lambda>(k, d). table_line
          [''Perc_frag_cover'', ''Nr_frag_cover'', ''Nr_frag_direct_at_taxon'', ''Rank_code'',
           ''NCBI_ID'', ''Scientific_name'', ''SampleID'', ''site''] d)
     [(''s19606'', row_record demo_metadata (''s1_report.txt'', human_row_later))]
   = [py_join [TAB] [''9.9'', ''80'', ''40'', ''S'', ''9606'', ''H. sapiens'', ''s1'', ''A'']]"
  by code_simp

theorem record_built_iff_row_selected_witness:
  "outcome_of (aggregate_kraken_results demo_pandas demo_files ''k'' (Some ''meta.csv'') None 30)
     = Returns (Some ''k/merged_kraken1.tsv'')
   \<and> row_selected demo_metadata 30 (''s1_report.txt'', human_row)
   \<and> \<not> row_selected demo_metadata 30 (''s1_report.txt'', genus_row)
   \<and> \<not> row_selected demo_metadata 30 (''x9_report.txt'', coli_row)
   \<and> (\<exists>aggregated_results sampleid.
         scan_reports demo_files ''k'' demo_metadata 30 ([], []) demo_names
           = Inr (aggregated_results, sampleid)
         \<and> row_key (''s1_report.txt'', human_row) \<in> fst ` set aggregated_results
         \<and> length aggregated_results = 1)
   \<and> files_after (aggregate_kraken_results demo_pandas demo_files ''k'' (Some ''meta.csv'')
                    None 30) ''k/merged_kraken1.tsv''
       = Some (RegFile (lines_text
           [py_join [TAB]
              [''Perc_frag_cover'', ''Nr_frag_cover'', ''Nr_frag_direct_at_taxon'',
               ''Rank_code'', ''NCBI_ID'', ''Scientific_name'', ''SampleID'', ''site''],
            py_join [TAB]
              [''9.9'', ''80'', ''40'', ''S'', ''9606'', ''H. sapiens'', ''s1'', ''A'']]))"
proof -
  from record_built_iff_row_selected[OF demo_run]
  obtain aggregated_results sampleid where
    scan: "scan_reports demo_files ''k'' demo_metadata 30 ([], []) demo_names
             = Inr (aggregated_results, sampleid)"
    and present: "\<forall>r \<in> set (report_rows demo_files ''k'' demo_names).
             row_selected demo_metadata 30 r \<longrightarrow> row_key r \<in> fst ` set aggregated_results"
    and content: "files_after (aggregate_kraken_results demo_pandas demo_files ''k''
                    (Some ''meta.csv'') None 30) ''k/merged_kraken1.tsv''
       = Some (RegFile (lines_text
           (py_join [TAB] (report_field_names @ tl (columns demo_metadata))
            # map (\<lambda>(k, d). table_line (report_field_names @ tl (columns demo_metadata)) d)
                aggregated_results)))"
    unfolding demo_metadata_resolved demo_listing by auto
  from scan have agg: "aggregated_results
      = [(''s19606'', row_record demo_metadata (''s1_report.txt'', human_row_later))]"
    by (simp add: demo_scan)
  have sel: "row_selected demo_metadata 30 (''s1_report.txt'', human_row)"
    by code_simp
  have no_genus: "\<not> row_selected demo_metadata 30 (''s1_report.txt'', genus_row)"
    by code_simp
  have no_coli: "\<not> row_selected demo_metadata 30 (''x9_report.txt'', coli_row)"
    by code_simp
  from present sel
  have key: "row_key (''s1_report.txt'', human_row) \<in> fst ` set aggregated_results"
    by (simp add: demo_rows)
  from agg have one: "length aggregated_results = 1" by simp
  from content have table: "files_after (aggregate_kraken_results demo_pandas demo_files ''k''
                    (Some ''meta.csv'') None 30) ''k/merged_kraken1.tsv''
       = Some (RegFile (lines_text
           [py_join [TAB]
              [''Perc_frag_cover'', ''Nr_frag_cover'', ''Nr_frag_direct_at_taxon'',
               ''Rank_code'', ''NCBI_ID'', ''Scientific_name'', ''SampleID'', ''site''],
            py_join [TAB]
              [''9.9'', ''80'', ''40'', ''S'', ''9606'', ''H. sapiens'', ''s1'', ''A'']]))"
    unfolding agg demo_header demo_lines .
  from demo_run sel no_genus no_coli scan key one table show ?thesis
    by - (intro conjI exI, assumption+)
qed


text \<open>
  C2. The key of a record is the sample identifier followed directly by the taxon
  identifier. In a run that returns the path of the merged table no key occurs twice in
  the dictionary, and the record under a key is the one of the last selected row with
  that key: it holds the seven fields taken from that row and the cells of the metadata
  row of its sample under the column labels, a label that is also a field name taking
  the cell. The merged table has, after the header line, one line for each record, its
  values under the header names joined by tabs.
\<close>

theorem last_selected_row_wins:
  assumes "outcome_of (aggregate_kraken_results pd fs kraken_dir metadata_file sample_id_df
                         read_count) = Returns (Some p)"
  shows "\<exists>metadata names aggregated_results sampleid.
           resolve_metadata pd fs metadata_file sample_id_df = Inr metadata
         \<and> os_listdir fs kraken_dir = Inr names
         \<and> scan_reports fs kraken_dir metadata read_count ([], []) names
               = Inr (aggregated_results, sampleid)
         \<and> distinct (map fst aggregated_results)
         \<and> (\<forall>r \<in> set (report_rows fs kraken_dir names).
               row_selected metadata read_count r
                 \<longrightarrow> extracted_part (fst r) @ taxon_id (snd r) \<in> fst ` set aggregated_results)
         \<and> (\<forall>(k, d) \<in> set aggregated_results. \<exists>file_name line m.
               find (\<lambda>r. extracted_part (fst r) @ taxon_id (snd r) = k)
                 (rev (filter (row_selected metadata read_count)
                         (report_rows fs kraken_dir names)))
                 = Some (file_name, line)
               \<and> find (\<lambda>row. take 1 row = [PyStr (extracted_part file_name)])
                     (rows metadata) = Some m
               \<and> map_of d = map_of (report_pairs file_name line)
                              ++ map_of (rev (zip (columns metadata) m)))
         \<and> files_after (aggregate_kraken_results pd fs kraken_dir metadata_file sample_id_df
                          read_count) p
               = Some (RegFile (lines_text
                   (py_join [TAB] (report_field_names @ tl (columns metadata))
                    # map (\<lambda>(k, d). table_line (report_field_names @ tl (columns metadata)) d)
                        aggregated_results)))"
proof -
  have key: "(\<lambda>r. extracted_part (fst r) @ taxon_id (snd r) = k) = (\<lambda>r. row_key r = k)" for k
    by (simp add: row_key_def)
  from assms obtain md names agg ids where h:
    "resolve_metadata pd fs metadata_file sample_id_df = Inr md"
    "os_listdir fs kraken_dir = Inr names"
    "scan_reports fs kraken_dir md read_count ([], []) names = Inr (agg, ids)"
    "files_after (aggregate_kraken_results pd fs kraken_dir metadata_file sample_id_df
        read_count) p
       = Some (RegFile (lines_text
           (py_join [TAB] (report_field_names @ tl (columns md))
            # map (\<lambda>(k, d). table_line (report_field_names @ tl (columns md)) d) agg)))"
    "distinct (map fst agg)"
    "\<forall>r \<in> set (report_rows fs kraken_dir names).
       row_selected md read_count r \<longrightarrow> row_key r \<in> fst ` set agg"
    "\<forall>(k, d) \<in> set agg. \<exists>file_name line m.
        find (\<lambda>r. row_key r = k)
          (rev (filter (row_selected md read_count) (report_rows fs kraken_dir names)))
          = Some (file_name, line)
        \<and> find (\<lambda>row. take 1 row = [PyStr (extracted_part file_name)]) (rows md) = Some m
        \<and> map_of d = map_of (report_pairs file_name line) ++ map_of (rev (zip (columns md) m))"
    by (rule aggregate_success_explicit)
  from h(1,2,3,5) h(6,7)[unfolded row_key_def] h(4) show ?thesis
    by - (intro exI conjI, assumption+)
qed

theorem last_selected_row_wins_witness:
  "outcome_of (aggregate_kraken_results demo_pandas demo_files ''k'' (Some ''meta.csv'') None 30)
     = Returns (Some ''k/merged_kraken1.tsv'')
   \<and> row_selected demo_metadata 30 (''s1_report.txt'', human_row)
   \<and> row_selected demo_metadata 30 (''s1_report.txt'', human_row_later)
   \<and> extracted_part ''s1_report.txt'' @ taxon_id human_row = ''s19606''
   \<and> extracted_part ''s1_report.txt'' @ taxon_id human_row_later = ''s19606''
   \<and> extracted_part ''sample1_report.txt''
         @ taxon_id (report_line [''1.0'', ''9'', ''9'', ''S'', ''23'', ''a''])
       = extracted_part ''sample12_report.txt''
         @ taxon_id (report_line [''1.0'', ''9'', ''9'', ''S'', ''3'', ''b''])
   \<and> (\<exists>d sampleid.
         scan_reports demo_files ''k'' demo_metadata 30 ([], []) demo_names
           = Inr ([(''s19606'', d)], sampleid)
         \<and> map_of d ''Perc_frag_cover'' = Some (PyStr ''9.9'')
         \<and> map_of d ''Nr_frag_direct_at_taxon'' = Some (PyInt 40)
         \<and> map_of d ''Scientific_name'' = Some (PyStr ''H. sapiens'')
         \<and> map_of d ''site'' = Some (PyStr ''A''))
   \<and> files_after (aggregate_kraken_results demo_pandas demo_files ''k'' (Some ''meta.csv'')
                    None 30) ''k/merged_kraken1.tsv''
       = Some (RegFile (lines_text
           [py_join [TAB]
              [''Perc_frag_cover'', ''Nr_frag_cover'', ''Nr_frag_direct_at_taxon'',
               ''Rank_code'', ''NCBI_ID'', ''Scientific_name'', ''SampleID'', ''site''],
            py_join [TAB]
              [''9.9'', ''80'', ''40'', ''S'', ''9606'', ''H. sapiens'', ''s1'', ''A'']]))"
proof -
  from last_selected_row_wins[OF demo_run]
  obtain aggregated_results sampleid where
    scan: "scan_reports demo_files ''k'' demo_metadata 30 ([], []) demo_names
             = Inr (aggregated_results, sampleid)"
    and built: "\<forall>(k, d) \<in> set aggregated_results. \<exists>file_name line m.
               find (\<lambda>r. extracted_part (fst r) @ taxon_id (snd r) = k)
                 (rev (filter (row_selected demo_metadata 30)
                         (report_rows demo_files ''k'' demo_names)))
                 = Some (file_name, line)
               \<and> find (\<lambda>row. take 1 row = [PyStr (extracted_part file_name)])
                     (rows demo_metadata) = Some m
               \<and> map_of d = map_of (report_pairs file_name line)
                              ++ map_of (rev (zip (columns demo_metadata) m))"
    and content: "files_after (aggregate_kraken_results demo_pandas demo_files ''k''
                    (Some ''meta.csv'') None 30) ''k/merged_kraken1.tsv''
       = Some (RegFile (lines_text
           (py_join [TAB] (report_field_names @ tl (columns demo_metadata))
            # map (\<lambda>(k, d). table_line (report_field_names @ tl (columns demo_metadata)) d)
                aggregated_results)))"
    unfolding demo_metadata_resolved demo_listing by auto
  from scan obtain d where agg: "aggregated_results = [(''s19606'', d)]"
    and d: "d = row_record demo_metadata (''s1_report.txt'', human_row_later)"
    by (simp add: demo_scan)
  have later: "find (\<lambda>r. extracted_part (fst r) @ taxon_id (snd r) = ''s19606'')
                 (rev (filter (row_selected demo_metadata 30)
                         (report_rows demo_files ''k'' demo_names)))
               = Some (''s1_report.txt'', human_row_later)"
    by code_simp
  have meta: "find (\<lambda>row. take 1 row = [PyStr (extracted_part ''s1_report.txt'')])
                (rows demo_metadata) = Some [PyStr ''s1'', PyStr ''A'']"
    by code_simp
  from built agg later meta have
    map: "map_of d = map_of (report_pairs ''s1_report.txt'' human_row_later)
                      ++ map_of (rev (zip (columns demo_metadata) [PyStr ''s1'', PyStr ''A'']))"
    by simp
  have "(map_of (report_pairs ''s1_report.txt'' human_row_later)
           ++ map_of (rev (zip (columns demo_metadata) [PyStr ''s1'', PyStr ''A''])))
          ''Perc_frag_cover'' = Some (PyStr ''9.9'')"
    by code_simp
  with map have f1: "map_of d ''Perc_frag_cover'' = Some (PyStr ''9.9'')" by simp
  have "(map_of (report_pairs ''s1_report.txt'' human_row_later)
           ++ map_of (rev (zip (columns demo_metadata) [PyStr ''s1'', PyStr ''A''])))
          ''Nr_frag_direct_at_taxon'' = Some (PyInt 40)"
    by code_simp
  with map have f2: "map_of d ''Nr_frag_direct_at_taxon'' = Some (PyInt 40)" by simp
  have "(map_of (report_pairs ''s1_report.txt'' human_row_later)
           ++ map_of (rev (zip (columns demo_metadata) [PyStr ''s1'', PyStr ''A''])))
          ''Scientific_name'' = Some (PyStr ''H. sapiens'')"
    by code_simp
  with map have f3: "map_of d ''Scientific_name'' = Some (PyStr ''H. sapiens'')" by simp
  have "(map_of (report_pairs ''s1_report.txt'' human_row_later)
           ++ map_of (rev (zip (columns demo_metadata) [PyStr ''s1'', PyStr ''A''])))
          ''site'' = Some (PyStr ''A'')"
    by code_simp
  with map have f4: "map_of d ''site'' = Some (PyStr ''A'')" by simp
  from scan agg have scan': "scan_reports demo_files ''k'' demo_metadata 30 ([], []) demo_names
           = Inr ([(''s19606'', d)], sampleid)"
    by simp
  have s1: "row_selected demo_metadata 30 (''s1_report.txt'', human_row)" by code_simp
  have s2: "row_selected demo_metadata 30 (''s1_report.txt'', human_row_later)" by code_simp
  have k1: "extracted_part ''s1_report.txt'' @ taxon_id human_row = ''s19606''" by code_simp
  have k2: "extracted_part ''s1_report.txt'' @ taxon_id human_row_later = ''s19606''"
    by code_simp
  have k3: "extracted_part ''sample1_report.txt''
         @ taxon_id (report_line [''1.0'', ''9'', ''9'', ''S'', ''23'', ''a''])
       = extracted_part ''sample12_report.txt''
         @ taxon_id (report_line [''1.0'', ''9'', ''9'', ''S'', ''3'', ''b''])"
    by code_simp
  from content have table: "files_after (aggregate_kraken_results demo_pandas demo_files ''k''
                    (Some ''meta.csv'') None 30) ''k/merged_kraken1.tsv''
       = Some (RegFile (lines_text
           [py_join [TAB]
              [''Perc_frag_cover'', ''Nr_frag_cover'', ''Nr_frag_direct_at_taxon'',
               ''Rank_code'', ''NCBI_ID'', ''Scientific_name'', ''SampleID'', ''site''],
            py_join [TAB]
              [''9.9'', ''80'', ''40'', ''S'', ''9606'', ''H. sapiens'', ''s1'', ''A'']]))"
    unfolding agg d demo_header demo_lines .
  from demo_run s1 s2 k1 k2 k3 scan' f1 f2 f3 f4 table show ?thesis
    by - (intro conjI exI, assumption+)
qed


text \<open>
  C3. The scan of a listing is the scan of its entries that end with
  \<^verbatim>\<open>_report.txt\<close>: no other entry is opened or has any effect, and each entry with the
  suffix is opened, so a scan that completes found a regular file behind each. For such
  a name, its underscore-separated segments without the last, joined by underscores
  again, are the name without the trailing \<^verbatim>\<open>_report.txt\<close>. In a run that returns
  the path of the merged table this is the identifier the function works with: the
  list it writes to \<^verbatim>\<open>sample_ids.csv\<close> holds, for each entry with the suffix in the
  order of the listing, that value once for every line of the file; and every key of
  the dictionary is that value for an entry with the suffix, followed by the taxon
  identifier of one of the lines of its file, with that value the first cell of a row
  of the metadata.
\<close>

theorem only_report_entries_are_scanned:
  "scan_reports fs kraken_dir metadata read_count st names
     = scan_reports fs kraken_dir metadata read_count st
         (filter (\<lambda>n. endswith n ''_report.txt'') names)
   \<and> (\<forall>st'. scan_reports fs kraken_dir metadata read_count st names = Inr st' \<longrightarrow>
          (\<forall>n \<in> set names. endswith n ''_report.txt'' \<longrightarrow>
             (\<exists>c. fs (os_path_join kraken_dir n) = Some (RegFile c))))
   \<and> (\<forall>n. endswith n ''_report.txt'' \<longrightarrow>
          py_join ''_'' (butlast (split_on (CHR ''_'') n)) @ ''_report.txt'' = n)
   \<and> (\<forall>p. outcome_of (aggregate_kraken_results pd fs kraken_dir metadata_file sample_id_df
                         read_count) = Returns (Some p) \<longrightarrow>
          (\<exists>table listed aggregated_results sampleid.
             resolve_metadata pd fs metadata_file sample_id_df = Inr table
           \<and> os_listdir fs kraken_dir = Inr listed
           \<and> scan_reports fs kraken_dir table read_count ([], []) listed
                 = Inr (aggregated_results, sampleid)
           \<and> (\<forall>n \<in> set listed. endswith n ''_report.txt'' \<longrightarrow>
                 (\<exists>c. fs (os_path_join kraken_dir n) = Some (RegFile c)))
           \<and> sampleid
                 = concat (map (\<lambda>n. replicate (length (lines_of fs (os_path_join kraken_dir n)))
                                       (py_join ''_'' (butlast (split_on (CHR ''_'') n))))
                             (filter (\<lambda>n. endswith n ''_report.txt'') listed))
           \<and> files_after (aggregate_kraken_results pd fs kraken_dir metadata_file sample_id_df
                            read_count) (os_path_join kraken_dir ''sample_ids.csv'')
                 = Some (RegFile (to_csv pd ''Sample_IDs'' sampleid))
           \<and> (\<forall>(k, d) \<in> set aggregated_results.
                 \<exists>n \<in> set listed. endswith n ''_report.txt''
                   \<and> (\<exists>line \<in> set (lines_of fs (os_path_join kraken_dir n)).
                         k = py_join ''_'' (butlast (split_on (CHR ''_'') n)) @ taxon_id line)
                   \<and> (\<exists>m \<in> set (rows table).
                         take 1 m = [PyStr (py_join ''_'' (butlast (split_on (CHR ''_'') n)))]))))"
proof (intro conjI allI impI)
  have "(\<lambda>n. endswith n ''_report.txt'') = is_report"
    by (rule ext) (simp add: is_report_def)
  then show "scan_reports fs kraken_dir metadata read_count st names
     = scan_reports fs kraken_dir metadata read_count st
         (filter (\<lambda>n. endswith n ''_report.txt'') names)"
    by (simp add: scan_reports_filter)
next
  fix st'
  assume "scan_reports fs kraken_dir metadata read_count st names = Inr st'"
  from scan_reports_Inr[OF this]
  show "\<forall>n \<in> set names. endswith n ''_report.txt'' \<longrightarrow>
          (\<exists>c. fs (os_path_join kraken_dir n) = Some (RegFile c))"
    by (simp add: is_report_def)
next
  fix n
  assume "endswith n ''_report.txt''"
  from extracted_part_report[OF this]
  show "py_join ''_'' (butlast (split_on (CHR ''_'') n)) @ ''_report.txt'' = n"
    by (simp add: extracted_part_def)
next
  fix p
  assume "outcome_of (aggregate_kraken_results pd fs kraken_dir metadata_file sample_id_df
            read_count) = Returns (Some p)"
  then obtain md listed agg ids where h:
    "resolve_metadata pd fs metadata_file sample_id_df = Inr md"
    "os_listdir fs kraken_dir = Inr listed"
    "scan_reports fs kraken_dir md read_count ([], []) listed = Inr (agg, ids)"
    "files_after (aggregate_kraken_results pd fs kraken_dir metadata_file sample_id_df
        read_count) (os_path_join kraken_dir ''sample_ids.csv'')
       = Some (RegFile (to_csv pd ''Sample_IDs'' ids))"
    "ids = map (\<lambda>r. extracted_part (fst r)) (report_rows fs kraken_dir listed)"
    "\<forall>n \<in> set listed. endswith n ''_report.txt'' \<longrightarrow>
       (\<exists>c. fs (os_path_join kraken_dir n) = Some (RegFile c))"
    and built: "\<forall>(k, d) \<in> set agg. \<exists>file_name line m.
        find (\<lambda>r. row_key r = k)
          (rev (filter (row_selected md read_count) (report_rows fs kraken_dir listed)))
          = Some (file_name, line)
        \<and> find (\<lambda>row. take 1 row = [PyStr (extracted_part file_name)]) (rows md) = Some m
        \<and> map_of d = map_of (report_pairs file_name line) ++ map_of (rev (zip (columns md) m))"
    by (rule aggregate_success_explicit)
  have ids: "ids
      = concat (map (\<lambda>n. replicate (length (lines_of fs (os_path_join kraken_dir n)))
                            (py_join ''_'' (butlast (split_on (CHR ''_'') n))))
                  (filter (\<lambda>n. endswith n ''_report.txt'') listed))"
    unfolding h(5) by (rule ids_by_file)
  have keys: "\<forall>(k, d) \<in> set agg.
                 \<exists>n \<in> set listed. endswith n ''_report.txt''
                   \<and> (\<exists>line \<in> set (lines_of fs (os_path_join kraken_dir n)).
                         k = py_join ''_'' (butlast (split_on (CHR ''_'') n)) @ taxon_id line)
                   \<and> (\<exists>m \<in> set (rows md).
                         take 1 m = [PyStr (py_join ''_'' (butlast (split_on (CHR ''_'') n)))])"
  proof (intro ballI, clarify)
    fix k d
    assume "(k, d) \<in> set agg"
    with built obtain n l where
      f: "find (\<lambda>r. row_key r = k)
            (rev (filter (row_selected md read_count) (report_rows fs kraken_dir listed)))
            = Some (n, l)"
      by blast
    from find_Some_D[OF f] have
      row: "(n, l) \<in> set (report_rows fs kraken_dir listed)"
      and sel: "row_selected md read_count (n, l)"
      and k: "k = extracted_part n @ taxon_id l"
      by (auto simp: row_key_def)
    from row have n: "n \<in> set listed" "endswith n ''_report.txt''"
      and l: "l \<in> set (lines_of fs (os_path_join kraken_dir n))"
      by (auto simp: report_rows_def is_report_def)
    from sel have "\<exists>m \<in> set (rows md). take 1 m = [PyStr (extracted_part n)]"
      by (simp add: row_selected_def)
    with n l k show "\<exists>n \<in> set listed. endswith n ''_report.txt''
                   \<and> (\<exists>line \<in> set (lines_of fs (os_path_join kraken_dir n)).
                         k = py_join ''_'' (butlast (split_on (CHR ''_'') n)) @ taxon_id line)
                   \<and> (\<exists>m \<in> set (rows md).
                         take 1 m = [PyStr (py_join ''_'' (butlast (split_on (CHR ''_'') n)))])"
      unfolding extracted_part_def by blast
  qed
  from h(1,2,3) h(6) ids h(4) keys
  show "\<exists>table listed aggregated_results sampleid.
             resolve_metadata pd fs metadata_file sample_id_df = Inr table
           \<and> os_listdir fs kraken_dir = Inr listed
           \<and> scan_reports fs kraken_dir table read_count ([], []) listed
                 = Inr (aggregated_results, sampleid)
           \<and> (\<forall>n \<in> set listed. endswith n ''_report.txt'' \<longrightarrow>
                 (\<exists>c. fs (os_path_join kraken_dir n) = Some (RegFile c)))
           \<and> sampleid
                 = concat (map (\<lambda>n. replicate (length (lines_of fs (os_path_join kraken_dir n)))
                                       (py_join ''_'' (butlast (split_on (CHR ''_'') n))))
                             (filter (\<lambda>n. endswith n ''_report.txt'') listed))
           \<and> files_after (aggregate_kraken_results pd fs kraken_dir metadata_file sample_id_df
                            read_count) (os_path_join kraken_dir ''sample_ids.csv'')
                 = Some (RegFile (to_csv pd ''Sample_IDs'' sampleid))
           \<and> (\<forall>(k, d) \<in> set aggregated_results.
                 \<exists>n \<in> set listed. endswith n ''_report.txt''
                   \<and> (\<exists>line \<in> set (lines_of fs (os_path_join kraken_dir n)).
                         k = py_join ''_'' (butlast (split_on (CHR ''_'') n)) @ taxon_id line)
                   \<and> (\<exists>m \<in> set (rows table).
                         take 1 m = [PyStr (py_join ''_'' (butlast (split_on (CHR ''_'') n)))]))"
    by - (intro exI conjI, assumption+)
qed


theorem only_report_entries_are_scanned_witness:
  "filter (\<lambda>n. endswith n ''_report.txt'') demo_names = [''s1_report.txt'', ''x9_report.txt'']
   \<and> scan_reports demo_files ''k'' demo_metadata 30 ([], []) demo_names
       = scan_reports demo_files ''k'' demo_metadata 30 ([], [])
           [''s1_report.txt'', ''x9_report.txt'']
   \<and> demo_files (os_path_join ''k'' ''s1_report.txt'') = Some (RegFile s1_report)
   \<and> endswith ''run_2_b_report.txt'' ''_report.txt''
   \<and> py_join ''_'' (butlast (split_on (CHR ''_'') ''run_2_b_report.txt'')) = ''run_2_b''
   \<and> outcome_of (aggregate_kraken_results demo_pandas demo_files ''k'' (Some ''meta.csv'')
                   None 30) = Returns (Some ''k/merged_kraken1.tsv'')
   \<and> files_after (aggregate_kraken_results demo_pandas demo_files ''k'' (Some ''meta.csv'')
                   None 30) ''k/sample_ids.csv''
       = Some (RegFile (lines_text [''Sample_IDs'', ''s1'', ''s1'', ''s1'', ''x9'']))"
proof -
  note inst = only_report_entries_are_scanned[of demo_files "''k''" demo_metadata 30 "([], [])"
               demo_names demo_pandas "Some ''meta.csv''" None]
  have names: "filter (\<lambda>n. endswith n ''_report.txt'') demo_names
                 = [''s1_report.txt'', ''x9_report.txt'']"
    by code_simp
  have opened: "demo_files (os_path_join ''k'' ''s1_report.txt'') = Some (RegFile s1_report)"
    by (simp add: demo_files_def os_path_join_def)
  have suffix: "endswith ''run_2_b_report.txt'' ''_report.txt''"
    by code_simp
  from inst have same: "scan_reports demo_files ''k'' demo_metadata 30 ([], []) demo_names
       = scan_reports demo_files ''k'' demo_metadata 30 ([], [])
           [''s1_report.txt'', ''x9_report.txt'']"
    unfolding names by blast
  from inst suffix have
    "py_join ''_'' (butlast (split_on (CHR ''_'') ''run_2_b_report.txt'')) @ ''_report.txt''
       = ''run_2_b_report.txt''"
    by blast
  then have stripped:
    "py_join ''_'' (butlast (split_on (CHR ''_'') ''run_2_b_report.txt'')) = ''run_2_b''"
    by simp
  from inst demo_run obtain sampleid where
    ids: "sampleid
            = concat (map (\<lambda>n. replicate (length (lines_of demo_files (os_path_join ''k'' n)))
                                  (py_join ''_'' (butlast (split_on (CHR ''_'') n))))
                        (filter (\<lambda>n. endswith n ''_report.txt'') demo_names))"
    and written: "files_after (aggregate_kraken_results demo_pandas demo_files ''k''
                    (Some ''meta.csv'') None 30) (os_path_join ''k'' ''sample_ids.csv'')
                 = Some (RegFile (to_csv demo_pandas ''Sample_IDs'' sampleid))"
    unfolding demo_listing by blast
  have "concat (map (\<lambda>n. replicate (length (lines_of demo_files (os_path_join ''k'' n)))
                                  (py_join ''_'' (butlast (split_on (CHR ''_'') n))))
                        (filter (\<lambda>n. endswith n ''_report.txt'') demo_names))
          = [''s1'', ''s1'', ''s1'', ''x9'']"
    by code_simp
  with ids have "sampleid = [''s1'', ''s1'', ''s1'', ''x9'']" by simp
  moreover have "os_path_join ''k'' ''sample_ids.csv'' = ''k/sample_ids.csv''"
    by code_simp
  moreover have "to_csv demo_pandas = (\<lambda>label vs. file_text (label # vs))"
    by (simp add: demo_pandas_def)
  ultimately have list: "files_after (aggregate_kraken_results demo_pandas demo_files ''k''
                   (Some ''meta.csv'') None 30) ''k/sample_ids.csv''
       = Some (RegFile (lines_text [''Sample_IDs'', ''s1'', ''s1'', ''s1'', ''x9'']))"
    using written by (simp add: file_text_def)
  from names same opened suffix stripped demo_run list show ?thesis
    by - (intro conjI, assumption+)
qed

lemma resolve_by_policy:
  "resolve_metadata pd fs metadata_file sample_id_df
     = (case (case metadata_file of
                Some path \<Rightarrow>
                  if path \<noteq> [] \<and> fs path \<noteq> None then read_csv pd fs path
                  else (case sample_id_df of
                          Some t \<Rightarrow> Inr t
                        | None \<Rightarrow> Inl (PyExn ValueError
                                    ''No metadata provided, and sample_id_df is None.''))
              | None \<Rightarrow>
                  (case sample_id_df of
                     Some t \<Rightarrow> Inr t
                   | None \<Rightarrow> Inl (PyExn ValueError
                               ''No metadata provided, and sample_id_df is None.''))) of
          Inl e \<Rightarrow> Inl e
        | Inr t \<Rightarrow> with_id_column t)"
  by (simp add: resolve_metadata_def metadata_from_frame_def os_path_exists_def
        split: option.splits sum.splits)

lemma aggregate_without_metadata:
  assumes "resolve_metadata pd fs mf df = Inl e"
  shows "aggregate_kraken_results pd fs dir mf df rc
           = (if is_Exception (exn_class e)
              then \<lparr>outcome_of = Returns None, files_after = fs,
                    printed = [''Error aggregating Kraken results: '' @ exn_str e],
                    invoked = []\<rparr>
              else \<lparr>outcome_of = Raises e, files_after = fs, printed = [], invoked = []\<rparr>)"
  using assms by (simp add: aggregate_kraken_results_def aggregate_body_def)

text \<open>
  C4. The metadata is taken from the first source that applies: the file at
  \<^verbatim>\<open>metadata_file\<close>, read with \<^verbatim>\<open>read_csv\<close>, when the path is given, not empty and
  exists, whatever \<^verbatim>\<open>sample_id_df\<close> holds; otherwise \<^verbatim>\<open>sample_id_df\<close> when it is
  given; otherwise nothing, which is a \<^verbatim>\<open>ValueError\<close>. When the source chosen in
  this way fails with an \<^verbatim>\<open>Exception\<close>, the reader's included, the call prints it,
  returns \<^verbatim>\<open>None\<close> and leaves the file system as it was; no other source is tried.
  When it yields a table, a table without columns ends the call in the same way, and
  every run that returns the path of the merged table has worked with that table: the
  rows it selected are those of species rank and sufficient count whose sample
  identifier is the first cell of one of its rows, the records carry the cells of that
  row, and the header of the merged table is the seven field names followed by its
  column labels after the first.
\<close>

theorem metadata_resolution_first_match_wins:
  assumes "chosen =
     (case metadata_file of
        Some path \<Rightarrow>
          if path \<noteq> [] \<and> fs path \<noteq> None then read_csv pd fs path
          else (case sample_id_df of
                  Some t \<Rightarrow> Inr t
                | None \<Rightarrow> Inl (PyExn ValueError
                            ''No metadata provided, and sample_id_df is None.''))
      | None \<Rightarrow>
          (case sample_id_df of
             Some t \<Rightarrow> Inr t
           | None \<Rightarrow> Inl (PyExn ValueError
                       ''No metadata provided, and sample_id_df is None.'')))"
  shows "(\<forall>e. chosen = Inl e \<and> is_Exception (exn_class e) \<longrightarrow>
            aggregate_kraken_results pd fs kraken_dir metadata_file sample_id_df read_count
              = \<lparr>outcome_of = Returns None, files_after = fs,
                 printed = [''Error aggregating Kraken results: '' @ exn_str e],
                 invoked = []\<rparr>)
       \<and> (\<forall>table. chosen = Inr table \<longrightarrow>
            (columns table = [] \<longrightarrow>
               aggregate_kraken_results pd fs kraken_dir metadata_file sample_id_df read_count
                 = \<lparr>outcome_of = Returns None, files_after = fs,
                    printed = [''Error aggregating Kraken results: index 0 is out of bounds for axis 0 with size 0''],
                    invoked = []\<rparr>)
          \<and> (\<forall>p. outcome_of (aggregate_kraken_results pd fs kraken_dir metadata_file
                                 sample_id_df read_count) = Returns (Some p) \<longrightarrow>
                 (\<exists>names aggregated_results sampleid.
                    os_listdir fs kraken_dir = Inr names
                  \<and> scan_reports fs kraken_dir table read_count ([], []) names
                        = Inr (aggregated_results, sampleid)
                  \<and> (\<forall>r \<in> set (report_rows fs kraken_dir names).
                        rank_code (snd r) = ''S''
                        \<and> (\<exists>c. direct_count (snd r) = Some c \<and> read_count \<le> c)
                        \<and> (\<exists>m \<in> set (rows table). take 1 m = [PyStr (extracted_part (fst r))])
                        \<longrightarrow> extracted_part (fst r) @ taxon_id (snd r)
                              \<in> fst ` set aggregated_results)
                  \<and> (\<forall>(k, d) \<in> set aggregated_results.
                        \<exists>r \<in> set (report_rows fs kraken_dir names).
                          k = extracted_part (fst r) @ taxon_id (snd r)
                          \<and> (\<exists>m. find (\<lambda>row. take 1 row = [PyStr (extracted_part (fst r))])
                                     (rows table) = Some m
                                 \<and> map_of d = map_of (report_pairs (fst r) (snd r))
                                                ++ map_of (rev (zip (columns table) m))))
                  \<and> files_after (aggregate_kraken_results pd fs kraken_dir metadata_file
                                   sample_id_df read_count) p
                        = Some (RegFile (lines_text
                            (py_join [TAB] (report_field_names @ tl (columns table))
                             # map (\<lambda>(k, d). table_line
                                      (report_field_names @ tl (columns table)) d)
                                 aggregated_results))))))"
proof (intro conjI allI impI)
  fix e
  assume "chosen = Inl e \<and> is_Exception (exn_class e)"
  then have "resolve_metadata pd fs metadata_file sample_id_df = Inl e"
      and "is_Exception (exn_class e)"
    unfolding resolve_by_policy assms[symmetric] by simp_all
  then show "aggregate_kraken_results pd fs kraken_dir metadata_file sample_id_df read_count
              = \<lparr>outcome_of = Returns None, files_after = fs,
                 printed = [''Error aggregating Kraken results: '' @ exn_str e],
                 invoked = []\<rparr>"
    by (simp add: aggregate_without_metadata)
next
  fix table
  assume "chosen = Inr table" and "columns table = []"
  then have "resolve_metadata pd fs metadata_file sample_id_df
               = Inl (PyExn IndexError ''index 0 is out of bounds for axis 0 with size 0'')"
    unfolding resolve_by_policy assms[symmetric] by (simp add: with_id_column_def)
  then show "aggregate_kraken_results pd fs kraken_dir metadata_file sample_id_df read_count
                 = \<lparr>outcome_of = Returns None, files_after = fs,
                    printed = [''Error aggregating Kraken results: index 0 is out of bounds for axis 0 with size 0''],
                    invoked = []\<rparr>"
    by (simp add: aggregate_without_metadata)
next
  fix table p
  assume chosen: "chosen = Inr table"
    and success: "outcome_of (aggregate_kraken_results pd fs kraken_dir metadata_file
                                 sample_id_df read_count) = Returns (Some p)"
  from success obtain md names agg ids where h:
    "resolve_metadata pd fs metadata_file sample_id_df = Inr md"
    "os_listdir fs kraken_dir = Inr names"
    "scan_reports fs kraken_dir md read_count ([], []) names = Inr (agg, ids)"
    "files_after (aggregate_kraken_results pd fs kraken_dir metadata_file sample_id_df
        read_count) p
       = Some (RegFile (lines_text
           (py_join [TAB] (report_field_names @ tl (columns md))
            # map (\<lambda>(k, d). table_line (report_field_names @ tl (columns md)) d) agg)))"
    "\<forall>r \<in> set (report_rows fs kraken_dir names).
       row_selected md read_count r \<longrightarrow> row_key r \<in> fst ` set agg"
    and built: "\<forall>(k, d) \<in> set agg. \<exists>file_name line m.
        find (\<lambda>r. row_key r = k)
          (rev (filter (row_selected md read_count) (report_rows fs kraken_dir names)))
          = Some (file_name, line)
        \<and> find (\<lambda>row. take 1 row = [PyStr (extracted_part file_name)]) (rows md) = Some m
        \<and> map_of d = map_of (report_pairs file_name line) ++ map_of (rev (zip (columns md) m))"
    by (rule aggregate_success_explicit)
  from h(1) chosen have md: "md = table"
    unfolding resolve_by_policy assms[symmetric]
    by (simp add: with_id_column_def split: if_splits)
  have present: "\<forall>r \<in> set (report_rows fs kraken_dir names).
                        rank_code (snd r) = ''S''
                        \<and> (\<exists>c. direct_count (snd r) = Some c \<and> read_count \<le> c)
                        \<and> (\<exists>m \<in> set (rows md). take 1 m = [PyStr (extracted_part (fst r))])
                        \<longrightarrow> extracted_part (fst r) @ taxon_id (snd r) \<in> fst ` set agg"
  proof (intro ballI impI)
    fix r
    assume r: "r \<in> set (report_rows fs kraken_dir names)"
      and c: "rank_code (snd r) = ''S''
                \<and> (\<exists>c. direct_count (snd r) = Some c \<and> read_count \<le> c)
                \<and> (\<exists>m \<in> set (rows md). take 1 m = [PyStr (extracted_part (fst r))])"
    then have "row_selected md read_count r"
      by (auto simp: row_selected_def)
    with h(5) r show "extracted_part (fst r) @ taxon_id (snd r) \<in> fst ` set agg"
      by (auto simp: row_key_def)
  qed
  have from_row: "\<forall>(k, d) \<in> set agg.
                        \<exists>r \<in> set (report_rows fs kraken_dir names).
                          k = extracted_part (fst r) @ taxon_id (snd r)
                          \<and> (\<exists>m. find (\<lambda>row. take 1 row = [PyStr (extracted_part (fst r))])
                                     (rows md) = Some m
                                 \<and> map_of d = map_of (report_pairs (fst r) (snd r))
                                                ++ map_of (rev (zip (columns md) m)))"
  proof (intro ballI, clarify)
    fix k d
    assume "(k, d) \<in> set agg"
    with built obtain n l m where
      f: "find (\<lambda>r. row_key r = k)
            (rev (filter (row_selected md read_count) (report_rows fs kraken_dir names)))
            = Some (n, l)"
      and m: "find (\<lambda>row. take 1 row = [PyStr (extracted_part n)]) (rows md) = Some m"
             "map_of d = map_of (report_pairs n l) ++ map_of (rev (zip (columns md) m))"
      by blast
    from find_Some_D[OF f] have
      "(n, l) \<in> set (report_rows fs kraken_dir names)" "k = extracted_part n @ taxon_id l"
      by (auto simp: row_key_def)
    with m show "\<exists>r \<in> set (report_rows fs kraken_dir names).
                          k = extracted_part (fst r) @ taxon_id (snd r)
                          \<and> (\<exists>m. find (\<lambda>row. take 1 row = [PyStr (extracted_part (fst r))])
                                     (rows md) = Some m
                                 \<and> map_of d = map_of (report_pairs (fst r) (snd r))
                                                ++ map_of (rev (zip (columns md) m)))"
      by (intro bexI[of _ "(n, l)"]) auto
  qed
  from h(2,3) present from_row h(4)
  show "\<exists>names aggregated_results sampleid.
                    os_listdir fs kraken_dir = Inr names
                  \<and> scan_reports fs kraken_dir table read_count ([], []) names
                        = Inr (aggregated_results, sampleid)
                  \<and> (\<forall>r \<in> set (report_rows fs kraken_dir names).
                        rank_code (snd r) = ''S''
                        \<and> (\<exists>c. direct_count (snd r) = Some c \<and> read_count \<le> c)
                        \<and> (\<exists>m \<in> set (rows table). take 1 m = [PyStr (extracted_part (fst r))])
                        \<longrightarrow> extracted_part (fst r) @ taxon_id (snd r)
                              \<in> fst ` set aggregated_results)
                  \<and> (\<forall>(k, d) \<in> set aggregated_results.
                        \<exists>r \<in> set (report_rows fs kraken_dir names).
                          k = extracted_part (fst r) @ taxon_id (snd r)
                          \<and> (\<exists>m. find (\<lambda>row. take 1 row = [PyStr (extracted_part (fst r))])
                                     (rows table) = Some m
                                 \<and> map_of d = map_of (report_pairs (fst r) (snd r))
                                                ++ map_of (rev (zip (columns table) m))))
                  \<and> files_after (aggregate_kraken_results pd fs kraken_dir metadata_file
                                   sample_id_df read_count) p
                        = Some (RegFile (lines_text
                            (py_join [TAB] (report_field_names @ tl (columns table))
                             # map (\<lambda>(k, d). table_line
                                      (report_field_names @ tl (columns table)) d)
                                 aggregated_results)))"
    unfolding md by - (intro exI conjI, assumption+)
qed


lemma demo_run_file_first:
  "outcome_of (aggregate_kraken_results demo_pandas demo_files ''k'' (Some ''meta.csv'')
                 (Some tabbed_metadata) 30) = Returns (Some ''k/merged_kraken1.tsv'')"
  by code_simp

lemma tabbed_run:
  "outcome_of (aggregate_kraken_results demo_pandas one_report_files ''k'' (Some ''absent.csv'')
                 (Some tabbed_metadata) 0) = Returns (Some ''k/merged_kraken1.tsv'')"
  by code_simp

lemma tabbed_listing: "os_listdir one_report_files ''k'' = Inr [''s1_report.txt'']"
  by code_simp

lemma tabbed_scan:
  "scan_reports one_report_files ''k'' tabbed_metadata 0 ([], []) [''s1_report.txt'']
     = Inr ([(''s19606'', row_record tabbed_metadata (''s1_report.txt'', human_row))], [''s1''])"
  by code_simp

lemma tabbed_header:
  "report_field_names @ tl (columns tabbed_metadata)
     = [''Perc_frag_cover'', ''Nr_frag_cover'', ''Nr_frag_direct_at_taxon'', ''Rank_code'',
        ''NCBI_ID'', ''Scientific_name'', ''SampleID'', ''note'']"
  by (simp add: tabbed_metadata_def)

lemma tabbed_lines:
  "map (\<lambda>(k, d). table_line
          [''Perc_frag_cover'', ''Nr_frag_cover'', ''Nr_frag_direct_at_taxon'', ''Rank_code'',
           ''NCBI_ID'', ''Scientific_name'', ''SampleID'', ''note''] d)
     [(''s19606'', row_record tabbed_metadata (''s1_report.txt'', human_row))]
   = [py_join [TAB] [''12.5'', ''100'', ''50'', ''S'', ''9606'', ''Homo sapiens'', ''s1'',
                     ''left'' @ [TAB] @ ''right'']]"
  by code_simp

theorem metadata_resolution_first_match_wins_witness:
  "demo_files ''meta.csv'' \<noteq> None
   \<and> files_after (aggregate_kraken_results demo_pandas demo_files ''k'' (Some ''meta.csv'')
                   (Some tabbed_metadata) 30) ''k/merged_kraken1.tsv''
       = Some (RegFile (lines_text
           [py_join [TAB]
              [''Perc_frag_cover'', ''Nr_frag_cover'', ''Nr_frag_direct_at_taxon'',
               ''Rank_code'', ''NCBI_ID'', ''Scientific_name'', ''SampleID'', ''site''],
            py_join [TAB]
              [''9.9'', ''80'', ''40'', ''S'', ''9606'', ''H. sapiens'', ''s1'', ''A'']]))
   \<and> one_report_files ''absent.csv'' = None
   \<and> files_after (aggregate_kraken_results demo_pandas one_report_files ''k''
                   (Some ''absent.csv'') (Some tabbed_metadata) 0) ''k/merged_kraken1.tsv''
       = Some (RegFile (lines_text
           [py_join [TAB]
              [''Perc_frag_cover'', ''Nr_frag_cover'', ''Nr_frag_direct_at_taxon'',
               ''Rank_code'', ''NCBI_ID'', ''Scientific_name'', ''SampleID'', ''note''],
            py_join [TAB]
              [''12.5'', ''100'', ''50'', ''S'', ''9606'', ''Homo sapiens'', ''s1'',
               ''left'' @ [TAB] @ ''right'']]))
   \<and> aggregate_kraken_results demo_pandas demo_files ''k'' None None 30
       = \<lparr>outcome_of = Returns None, files_after = demo_files,
          printed = [''Error aggregating Kraken results: No metadata provided, and sample_id_df is None.''],
          invoked = []\<rparr>"
proof -
  have here: "demo_files ''meta.csv'' \<noteq> None"
    by (simp add: demo_files_def)
  have absent: "one_report_files ''absent.csv'' = None"
    by (simp add: one_report_files_def)
  have read: "read_csv demo_pandas demo_files ''meta.csv'' = Inr demo_metadata"
    by (simp add: demo_pandas_def)
  have first: "Inr demo_metadata =
     (case Some ''meta.csv'' of
        Some path \<Rightarrow>
          if path \<noteq> [] \<and> demo_files path \<noteq> None then read_csv demo_pandas demo_files path
          else (case Some tabbed_metadata of
                  Some t \<Rightarrow> Inr t
                | None \<Rightarrow> Inl (PyExn ValueError
                            ''No metadata provided, and sample_id_df is None.''))
      | None \<Rightarrow>
          (case Some tabbed_metadata of
             Some t \<Rightarrow> Inr t
           | None \<Rightarrow> Inl (PyExn ValueError
                       ''No metadata provided, and sample_id_df is None.'')))"
    using here read by simp
  from metadata_resolution_first_match_wins[OF first, of "''k''" 30] demo_run_file_first
  obtain agg1 ids1 where
    scan1: "scan_reports demo_files ''k'' demo_metadata 30 ([], []) demo_names = Inr (agg1, ids1)"
    and content1: "files_after (aggregate_kraken_results demo_pandas demo_files ''k''
                     (Some ''meta.csv'') (Some tabbed_metadata) 30) ''k/merged_kraken1.tsv''
       = Some (RegFile (lines_text
           (py_join [TAB] (report_field_names @ tl (columns demo_metadata))
            # map (\<lambda>(k, d). table_line (report_field_names @ tl (columns demo_metadata)) d)
                agg1)))"
    unfolding demo_listing by blast
  from scan1 have agg1: "agg1
      = [(''s19606'', row_record demo_metadata (''s1_report.txt'', human_row_later))]"
    by (simp add: demo_scan)
  from content1 have table1: "files_after (aggregate_kraken_results demo_pandas demo_files ''k''
                   (Some ''meta.csv'') (Some tabbed_metadata) 30) ''k/merged_kraken1.tsv''
       = Some (RegFile (lines_text
           [py_join [TAB]
              [''Perc_frag_cover'', ''Nr_frag_cover'', ''Nr_frag_direct_at_taxon'',
               ''Rank_code'', ''NCBI_ID'', ''Scientific_name'', ''SampleID'', ''site''],
            py_join [TAB]
              [''9.9'', ''80'', ''40'', ''S'', ''9606'', ''H. sapiens'', ''s1'', ''A'']]))"
    unfolding agg1 demo_header demo_lines .
  have second: "Inr tabbed_metadata =
     (case Some ''absent.csv'' of
        Some path \<Rightarrow>
          if path \<noteq> [] \<and> one_report_files path \<noteq> None
          then read_csv demo_pandas one_report_files path
          else (case Some tabbed_metadata of
                  Some t \<Rightarrow> Inr t
                | None \<Rightarrow> Inl (PyExn ValueError
                            ''No metadata provided, and sample_id_df is None.''))
      | None \<Rightarrow>
          (case Some tabbed_metadata of
             Some t \<Rightarrow> Inr t
           | None \<Rightarrow> Inl (PyExn ValueError
                       ''No metadata provided, and sample_id_df is None.'')))"
    using absent by simp
  from metadata_resolution_first_match_wins[OF second, of "''k''" 0] tabbed_run
  obtain agg2 ids2 where
    scan2: "scan_reports one_report_files ''k'' tabbed_metadata 0 ([], []) [''s1_report.txt'']
              = Inr (agg2, ids2)"
    and content2: "files_after (aggregate_kraken_results demo_pandas one_report_files ''k''
                     (Some ''absent.csv'') (Some tabbed_metadata) 0) ''k/merged_kraken1.tsv''
       = Some (RegFile (lines_text
           (py_join [TAB] (report_field_names @ tl (columns tabbed_metadata))
            # map (\<lambda>(k, d). table_line (report_field_names @ tl (columns tabbed_metadata)) d)
                agg2)))"
    unfolding tabbed_listing by blast
  from scan2[unfolded tabbed_scan] have agg2: "agg2
      = [(''s19606'', row_record tabbed_metadata (''s1_report.txt'', human_row))]"
    by simp
  from content2 have table2: "files_after (aggregate_kraken_results demo_pandas one_report_files
                   ''k'' (Some ''absent.csv'') (Some tabbed_metadata) 0) ''k/merged_kraken1.tsv''
       = Some (RegFile (lines_text
           [py_join [TAB]
              [''Perc_frag_cover'', ''Nr_frag_cover'', ''Nr_frag_direct_at_taxon'',
               ''Rank_code'', ''NCBI_ID'', ''Scientific_name'', ''SampleID'', ''note''],
            py_join [TAB]
              [''12.5'', ''100'', ''50'', ''S'', ''9606'', ''Homo sapiens'', ''s1'',
               ''left'' @ [TAB] @ ''right'']]))"
    unfolding agg2 tabbed_header tabbed_lines .
  have third: "Inl (PyExn ValueError ''No metadata provided, and sample_id_df is None.'') =
     (case None of
        Some path \<Rightarrow>
          if path \<noteq> [] \<and> demo_files path \<noteq> None then read_csv demo_pandas demo_files path
          else (case None of
                  Some t \<Rightarrow> Inr t
                | None \<Rightarrow> Inl (PyExn ValueError
                            ''No metadata provided, and sample_id_df is None.''))
      | None \<Rightarrow>
          (case None of
             Some t \<Rightarrow> Inr t
           | None \<Rightarrow> Inl (PyExn ValueError
                       ''No metadata provided, and sample_id_df is None.'')))"
    by simp
  from metadata_resolution_first_match_wins[OF third, of "''k''" 30]
  have none: "aggregate_kraken_results demo_pandas demo_files ''k'' None None 30
       = \<lparr>outcome_of = Returns None, files_after = demo_files,
          printed = [''Error aggregating Kraken results: No metadata provided, and sample_id_df is None.''],
          invoked = []\<rparr>"
    by simp
  from here table1 absent table2 none show ?thesis
    by - (intro conjI, assumption+)
qed

text \<open>
  C5. In a run that returns the path of the merged table, the frame written to
  \<^verbatim>\<open>sample_ids.csv\<close> has the column \<^verbatim>\<open>Sample_IDs\<close> and, as its values, the sample
  identifier of the file of every row the scan met, selected or not, in the order the
  rows were met and with every repetition.
\<close>

theorem sample_ids_list_every_row:
  assumes "outcome_of (aggregate_kraken_results pd fs kraken_dir metadata_file sample_id_df
                         read_count) = Returns (Some p)"
  shows "\<exists>names.
           os_listdir fs kraken_dir = Inr names
         \<and> files_after (aggregate_kraken_results pd fs kraken_dir metadata_file sample_id_df
                          read_count) (os_path_join kraken_dir ''sample_ids.csv'')
               = Some (RegFile (to_csv pd ''Sample_IDs''
                    (map (\<lambda>r. extracted_part (fst r)) (report_rows fs kraken_dir names))))"
proof -
  from assms obtain md names agg ids where h:
    "os_listdir fs kraken_dir = Inr names"
    "scan_reports fs kraken_dir md read_count ([], []) names = Inr (agg, ids)"
    "files_after (aggregate_kraken_results pd fs kraken_dir metadata_file sample_id_df
        read_count) (os_path_join kraken_dir ''sample_ids.csv'')
       = Some (RegFile (to_csv pd ''Sample_IDs'' ids))"
    by (rule aggregate_success)
  from scan_reports_Inr[OF h(2)] have
    "(agg, ids) = foldl (apply_row md read_count) ([], []) (report_rows fs kraken_dir names)"
    by simp
  then have "ids = snd (foldl (apply_row md read_count) ([], [])
                          (report_rows fs kraken_dir names))"
    by (metis snd_conv)
  then have "ids = map (\<lambda>r. extracted_part (fst r)) (report_rows fs kraken_dir names)"
    by (simp add: snd_foldl_apply_row)
  with h show ?thesis by blast
qed

theorem sample_ids_list_every_row_witness:
  "outcome_of (aggregate_kraken_results demo_pandas demo_files ''k'' (Some ''meta.csv'') None 30)
     = Returns (Some ''k/merged_kraken1.tsv'')
   \<and> files_after (aggregate_kraken_results demo_pandas demo_files ''k'' (Some ''meta.csv'')
                    None 30) ''k/sample_ids.csv''
       = Some (RegFile (file_text [''Sample_IDs'', ''s1'', ''s1'', ''s1'', ''x9'']))"
proof -
  have "map (\<lambda>r. extracted_part (fst r)) (report_rows demo_files ''k'' demo_names)
          = [''s1'', ''s1'', ''s1'', ''x9'']"
    by code_simp
  moreover have "os_path_join ''k'' ''sample_ids.csv'' = ''k/sample_ids.csv''"
    by code_simp
  moreover have "to_csv demo_pandas = (\<lambda>label vs. file_text (label # vs))"
    by (simp add: demo_pandas_def)
  ultimately show ?thesis
    using sample_ids_list_every_row[OF demo_run] demo_run
    unfolding demo_listing by auto
qed

text \<open>
  C6. In a run that returns the path of the merged table, the text of that table starts
  with the header line: the six names of the report fields, \<^verbatim>\<open>SampleID\<close>, and the
  column labels of the metadata after the first, in their order, joined by tabs.
\<close>

theorem merged_table_header:
  assumes "outcome_of (aggregate_kraken_results pd fs kraken_dir metadata_file sample_id_df
                         read_count) = Returns (Some p)"
  shows "\<exists>metadata rest.
           resolve_metadata pd fs metadata_file sample_id_df = Inr metadata
         \<and> files_after (aggregate_kraken_results pd fs kraken_dir metadata_file sample_id_df
                          read_count) p
               = Some (RegFile (py_join [TAB]
                    ([''Perc_frag_cover'', ''Nr_frag_cover'', ''Nr_frag_direct_at_taxon'',
                      ''Rank_code'', ''NCBI_ID'', ''Scientific_name'', ''SampleID'']
                     @ tl (columns metadata)) @ [NL] @ rest))"
proof -
  from assms obtain md written where h:
    "resolve_metadata pd fs metadata_file sample_id_df = Inr md"
    "files_after (aggregate_kraken_results pd fs kraken_dir metadata_file sample_id_df
        read_count) p
       = Some (RegFile (file_text (py_join [TAB] (headers md) # written)))"
    by (rule aggregate_success)
  from h(2) have
    "files_after (aggregate_kraken_results pd fs kraken_dir metadata_file sample_id_df
        read_count) p
       = Some (RegFile (py_join [TAB]
                    ([''Perc_frag_cover'', ''Nr_frag_cover'', ''Nr_frag_direct_at_taxon'',
                      ''Rank_code'', ''NCBI_ID'', ''Scientific_name'', ''SampleID'']
                     @ tl (columns md)) @ [NL] @ file_text written))"
    by (simp only: file_text_Cons headers_def fixed_headers_def)
  with h(1) show ?thesis by blast
qed

theorem merged_table_header_witness:
  "outcome_of (aggregate_kraken_results demo_pandas demo_files ''k'' (Some ''meta.csv'') None 30)
     = Returns (Some ''k/merged_kraken1.tsv'')
   \<and> (\<exists>rest. files_after (aggregate_kraken_results demo_pandas demo_files ''k''
                   (Some ''meta.csv'') None 30) ''k/merged_kraken1.tsv''
       = Some (RegFile (py_join [TAB]
            [''Perc_frag_cover'', ''Nr_frag_cover'', ''Nr_frag_direct_at_taxon'',
             ''Rank_code'', ''NCBI_ID'', ''Scientific_name'', ''SampleID'', ''site'']
            @ [NL] @ rest)))"
proof -
  have "tl (columns demo_metadata) = [''site'']"
    by (simp add: demo_metadata_def)
  with merged_table_header[OF demo_run] demo_run show ?thesis
    unfolding demo_metadata_resolved by auto
qed

text \<open>
  C7, as the code has it. Values are written as they are, with no quoting. In a run
  that returns the path of the merged table and whose metadata has no tab character in
  the text of any cell, every data line of the merged table splits on the tab character
  into as many fields as the header has names.
\<close>

theorem rows_round_trip_without_tabs:
  assumes "outcome_of (aggregate_kraken_results pd fs kraken_dir metadata_file sample_id_df
                         read_count) = Returns (Some p)"
    and "resolve_metadata pd fs metadata_file sample_id_df = Inr metadata"
    and "tab_free_cells metadata"
  shows "\<exists>names aggregated_results sampleid written.
           os_listdir fs kraken_dir = Inr names
         \<and> scan_reports fs kraken_dir metadata read_count ([], []) names
               = Inr (aggregated_results, sampleid)
         \<and> merged_rows (headers metadata) aggregated_results = (written, None)
         \<and> length written = length aggregated_results
         \<and> files_after (aggregate_kraken_results pd fs kraken_dir metadata_file sample_id_df
                          read_count) p
               = Some (RegFile (file_text (py_join [TAB] (headers metadata) # written)))
         \<and> (\<forall>row \<in> set written. length (split_on TAB row) = length (headers metadata))"
proof -
  from assms(1) obtain md names agg ids written where h:
    "resolve_metadata pd fs metadata_file sample_id_df = Inr md"
    "os_listdir fs kraken_dir = Inr names"
    "scan_reports fs kraken_dir md read_count ([], []) names = Inr (agg, ids)"
    "merged_rows (headers md) agg = (written, None)"
    "files_after (aggregate_kraken_results pd fs kraken_dir metadata_file sample_id_df
        read_count) p
       = Some (RegFile (file_text (py_join [TAB] (headers md) # written)))"
    by (rule aggregate_success)
  from h(1) assms(2) have md: "md = metadata" by simp
  from scan_reports_Inr[OF h(3)] have
    fold: "(agg, ids) = foldl (apply_row md read_count) ([], []) (report_rows fs kraken_dir names)"
    and wf: "\<forall>r \<in> set (report_rows fs kraken_dir names). well_formed_row (snd r)"
    by simp_all
  from fold have agg: "agg = fst (foldl (apply_row md read_count) ([], [])
                               (report_rows fs kraken_dir names))"
    by (metis fst_conv)
  have cell: "TAB \<notin> set (py_str v)" if "(key, d) \<in> set agg" and kv: "(k, v) \<in> set d"
    for key d k v
  proof -
    from that(1) have "(key, d) \<in> set (fst (foldl (apply_row md read_count) ([], [])
                                       (report_rows fs kraken_dir names)))"
      by (simp add: agg)
    from record_from_selected_row[OF this] obtain r where
      r: "r \<in> set (report_rows fs kraken_dir names)" "row_selected md read_count r"
         "d = row_record md r"
      by blast
    from wf r(1) have "well_formed_row (snd r)" by blast
    from row_record_no_TAB[OF _ this r(2)] assms(3) kv r(3) md
    show ?thesis by blast
  qed
  then have free: "\<forall>(key, d) \<in> set agg. \<forall>(k, v) \<in> set d. TAB \<notin> set (py_str v)"
    by blast
  from merged_rows_field_count[OF h(4) headers_not_Nil free]
  have "\<forall>row \<in> set written. length (split_on TAB row) = length (headers md)" .
  with h merged_rows_None_length[OF h(4)] show ?thesis
    unfolding md by blast
qed

theorem rows_round_trip_without_tabs_witness:
  "outcome_of (aggregate_kraken_results demo_pandas demo_files ''k'' (Some ''meta.csv'') None 30)
     = Returns (Some ''k/merged_kraken1.tsv'')
   \<and> tab_free_cells demo_metadata
   \<and> length (headers demo_metadata) = 8
   \<and> (\<exists>written.
         files_after (aggregate_kraken_results demo_pandas demo_files ''k'' (Some ''meta.csv'')
                        None 30) ''k/merged_kraken1.tsv''
           = Some (RegFile (file_text (py_join [TAB] (headers demo_metadata) # written)))
         \<and> length written = 1
         \<and> list_all (\<lambda>row. length (split_on TAB row) = 8) written)"
proof -
  have free: "tab_free_cells demo_metadata"
    by (simp add: tab_free_cells_def demo_metadata_def)
  have len: "length (headers demo_metadata) = 8"
    by (simp add: headers_def fixed_headers_def demo_metadata_def)
  from rows_round_trip_without_tabs[OF demo_run demo_metadata_resolved free]
  obtain aggregated_results sampleid written where
    scan: "scan_reports demo_files ''k'' demo_metadata 30 ([], []) demo_names
             = Inr (aggregated_results, sampleid)"
    and n: "length written = length aggregated_results"
    and content: "files_after (aggregate_kraken_results demo_pandas demo_files ''k''
                  (Some ''meta.csv'') None 30) ''k/merged_kraken1.tsv''
           = Some (RegFile (file_text (py_join [TAB] (headers demo_metadata) # written)))"
    and count: "\<forall>row \<in> set written. length (split_on TAB row) = length (headers demo_metadata)"
    unfolding demo_listing by auto
  from scan n have "length written = 1"
    by (auto simp: demo_scan)
  moreover from count have "list_all (\<lambda>row. length (split_on TAB row) = 8) written"
    by (simp add: len list_all_iff)
  ultimately show ?thesis using demo_run free len content by blast
qed

text \<open>
  C7 as written fails: with a tab character inside a metadata cell of the sample, the
  data line of the merged table splits into nine fields under a header of eight names.
\<close>

theorem tab_in_metadata_breaks_round_trip:
  "outcome_of (aggregate_kraken_results demo_pandas one_report_files ''k'' None
                 (Some tabbed_metadata) 0) = Returns (Some ''k/merged_kraken1.tsv'')
   \<and> files_after (aggregate_kraken_results demo_pandas one_report_files ''k'' None
                 (Some tabbed_metadata) 0) ''k/merged_kraken1.tsv''
       = Some (RegFile (file_text
           [py_join [TAB] (headers tabbed_metadata),
            py_join [TAB] [''12.5'', ''100'', ''50'', ''S'', ''9606'', ''Homo sapiens'', ''s1'',
                           ''left'' @ [TAB] @ ''right'']]))
   \<and> length (headers tabbed_metadata) = 8
   \<and> length (split_on TAB
         (py_join [TAB] [''12.5'', ''100'', ''50'', ''S'', ''9606'', ''Homo sapiens'', ''s1'',
                         ''left'' @ [TAB] @ ''right''])) = 9"
  by code_simp

lemma empty_scan_run:
  assumes "resolve_metadata pd fs metadata_file sample_id_df = Inr metadata"
    and "os_listdir fs kraken_dir = Inr names"
    and "scan_reports fs kraken_dir metadata read_count ([], []) names = Inr ([], sampleid)"
    and "\<forall>es. fs (os_path_join kraken_dir ''merged_kraken1.tsv'') \<noteq> Some (Directory es)"
    and "\<forall>es. fs (os_path_join kraken_dir ''sample_ids.csv'') \<noteq> Some (Directory es)"
  shows "aggregate_kraken_results pd fs kraken_dir metadata_file sample_id_df read_count
           = \<lparr>outcome_of = Returns (Some (os_path_join kraken_dir ''merged_kraken1.tsv'')),
              files_after =
                fs(os_path_join kraken_dir ''merged_kraken1.tsv'' \<mapsto>
                     RegFile (py_join [TAB] (report_field_names @ tl (columns metadata)) @ [NL]),
                   os_path_join kraken_dir ''sample_ids.csv'' \<mapsto>
                     RegFile (to_csv pd ''Sample_IDs'' sampleid)),
              printed = [], invoked = []\<rparr>"
proof -
  have "aggregate_body pd fs kraken_dir metadata_file sample_id_df read_count
          = (Inr (os_path_join kraken_dir ''merged_kraken1.tsv''),
             fs(os_path_join kraken_dir ''merged_kraken1.tsv'' \<mapsto>
                  RegFile (file_text (py_join [TAB] (headers metadata) # [])),
                os_path_join kraken_dir ''sample_ids.csv'' \<mapsto>
                  RegFile (to_csv pd ''Sample_IDs'' sampleid)))"
    unfolding aggregate_body_Inr
    using assms by (intro exI[of _ metadata] exI[of _ names] exI[of _ "[]"]
                      exI[of _ sampleid]) simp
  then show ?thesis
    by (simp add: aggregate_kraken_results_def file_text_single headers_def fixed_headers_def)
qed

text \<open>
  C10, as the code has it. Let the metadata resolve to a table and the directory be
  listed, and let neither output path be a directory. Let every listed entry with the
  suffix \<^verbatim>\<open>_report.txt\<close> be a regular file, every line of these files have at least six
  fields and a third field that \<^verbatim>\<open>int\<close> accepts, no line pass the filter, and the first
  column label of the metadata occur once among the labels. Then the call returns the
  path of the merged table and prints nothing; the merged table is the header line
  alone, the seven fixed names and the metadata labels after the first; and the sample
  identifier file is written from one identifier for every line of the reports. When no
  listed entry has the suffix, nothing is asked of the files or the labels, and the
  sample identifier file is written from the empty list.
\<close>

theorem empty_selection_succeeds_on_well_formed_reports:
  assumes "resolve_metadata pd fs metadata_file sample_id_df = Inr metadata"
    and "os_listdir fs kraken_dir = Inr names"
    and "\<forall>es. fs (os_path_join kraken_dir ''merged_kraken1.tsv'') \<noteq> Some (Directory es)"
    and "\<forall>es. fs (os_path_join kraken_dir ''sample_ids.csv'') \<noteq> Some (Directory es)"
  shows "((\<forall>n \<in> set names. endswith n ''_report.txt'' \<longrightarrow>
             (\<exists>c. fs (os_path_join kraken_dir n) = Some (RegFile c)))
          \<and> (\<forall>r \<in> set (report_rows fs kraken_dir names).
                6 \<le> length (row_fields (snd r))
                \<and> (\<exists>c. py_int (row_fields (snd r) ! 2) = Inr c)
                \<and> \<not> row_selected metadata read_count r)
          \<and> count_list (columns metadata) (hd (columns metadata)) = 1
          \<longrightarrow> aggregate_kraken_results pd fs kraken_dir metadata_file sample_id_df read_count
                = \<lparr>outcome_of = Returns (Some (os_path_join kraken_dir ''merged_kraken1.tsv'')),
                   files_after =
                     fs(os_path_join kraken_dir ''merged_kraken1.tsv'' \<mapsto>
                          RegFile (py_join [TAB]
                                     (report_field_names @ tl (columns metadata)) @ [NL]),
                        os_path_join kraken_dir ''sample_ids.csv'' \<mapsto>
                          RegFile (to_csv pd ''Sample_IDs''
                                     (map (\<lambda>r. py_join ''_'' (butlast (split_on (CHR ''_'') (fst r))))
                                        (report_rows fs kraken_dir names)))),
                   printed = [], invoked = []\<rparr>)
       \<and> ((\<forall>n \<in> set names. \<not> endswith n ''_report.txt'')
          \<longrightarrow> aggregate_kraken_results pd fs kraken_dir metadata_file sample_id_df read_count
                = \<lparr>outcome_of = Returns (Some (os_path_join kraken_dir ''merged_kraken1.tsv'')),
                   files_after =
                     fs(os_path_join kraken_dir ''merged_kraken1.tsv'' \<mapsto>
                          RegFile (py_join [TAB]
                                     (report_field_names @ tl (columns metadata)) @ [NL]),
                        os_path_join kraken_dir ''sample_ids.csv'' \<mapsto>
                          RegFile (to_csv pd ''Sample_IDs'' [])),
                   printed = [], invoked = []\<rparr>)"
proof (intro conjI impI)
  assume a: "(\<forall>n \<in> set names. endswith n ''_report.txt'' \<longrightarrow>
             (\<exists>c. fs (os_path_join kraken_dir n) = Some (RegFile c)))
          \<and> (\<forall>r \<in> set (report_rows fs kraken_dir names).
                6 \<le> length (row_fields (snd r))
                \<and> (\<exists>c. py_int (row_fields (snd r) ! 2) = Inr c)
                \<and> \<not> row_selected metadata read_count r)
          \<and> count_list (columns metadata) (hd (columns metadata)) = 1"
  then have readable: "\<forall>n \<in> set names. is_report n \<longrightarrow>
                         (\<exists>c. fs (os_path_join kraken_dir n) = Some (RegFile c))"
    by (simp add: is_report_def)
  from a have formed: "\<forall>r \<in> set (report_rows fs kraken_dir names). well_formed_row (snd r)"
    by (auto simp: well_formed_row_def direct_count_def)
  from a have none: "\<forall>r \<in> set (report_rows fs kraken_dir names).
                       \<not> row_selected metadata read_count r"
    by blast
  from a have label: "count_list (columns metadata) (hd (columns metadata)) \<le> 1"
    by simp
  let ?st = "foldl (apply_row metadata read_count) ([], []) (report_rows fs kraken_dir names)"
  have scan: "scan_reports fs kraken_dir metadata read_count ([], []) names = Inr ?st"
    by (rule scan_reports_complete[OF readable formed label])
  then have scan': "scan_reports fs kraken_dir metadata read_count ([], []) names
                      = Inr (fst ?st, snd ?st)"
    by simp
  have empty: "fst ?st = []"
    by (rule nothing_selected_empty[OF scan' none])
  have ids: "snd ?st = map (\<lambda>r. py_join ''_'' (butlast (split_on (CHR ''_'') (fst r))))
                         (report_rows fs kraken_dir names)"
    by (simp add: snd_foldl_apply_row extracted_part_def)
  from scan' have "scan_reports fs kraken_dir metadata read_count ([], []) names
                     = Inr ([], map (\<lambda>r. py_join ''_'' (butlast (split_on (CHR ''_'') (fst r))))
                                  (report_rows fs kraken_dir names))"
    unfolding empty ids .
  from empty_scan_run[OF assms(1,2) this assms(3,4)]
  show "aggregate_kraken_results pd fs kraken_dir metadata_file sample_id_df read_count
                = \<lparr>outcome_of = Returns (Some (os_path_join kraken_dir ''merged_kraken1.tsv'')),
                   files_after =
                     fs(os_path_join kraken_dir ''merged_kraken1.tsv'' \<mapsto>
                          RegFile (py_join [TAB]
                                     (report_field_names @ tl (columns metadata)) @ [NL]),
                        os_path_join kraken_dir ''sample_ids.csv'' \<mapsto>
                          RegFile (to_csv pd ''Sample_IDs''
                                     (map (\<lambda>r. py_join ''_'' (butlast (split_on (CHR ''_'') (fst r))))
                                        (report_rows fs kraken_dir names)))),
                   printed = [], invoked = []\<rparr>" .
next
  assume "\<forall>n \<in> set names. \<not> endswith n ''_report.txt''"
  then have "filter is_report names = []"
    by (simp add: is_report_def filter_empty_conv)
  then have "scan_reports fs kraken_dir metadata read_count ([], []) names = Inr ([], [])"
    by (rule scan_reports_no_report)
  from empty_scan_run[OF assms(1,2) this assms(3,4)]
  show "aggregate_kraken_results pd fs kraken_dir metadata_file sample_id_df read_count
                = \<lparr>outcome_of = Returns (Some (os_path_join kraken_dir ''merged_kraken1.tsv'')),
                   files_after =
                     fs(os_path_join kraken_dir ''merged_kraken1.tsv'' \<mapsto>
                          RegFile (py_join [TAB]
                                     (report_field_names @ tl (columns metadata)) @ [NL]),
                        os_path_join kraken_dir ''sample_ids.csv'' \<mapsto>
                          RegFile (to_csv pd ''Sample_IDs'' [])),
                   printed = [], invoked = []\<rparr>" .
qed

theorem empty_selection_succeeds_on_well_formed_reports_witness:
  "aggregate_kraken_results demo_pandas genus_only_files ''k'' None (Some demo_metadata) 0
     = \<lparr>outcome_of = Returns (Some ''k/merged_kraken1.tsv''),
        files_after =
          genus_only_files(''k/merged_kraken1.tsv'' \<mapsto>
               RegFile (py_join [TAB]
                 [''Perc_frag_cover'', ''Nr_frag_cover'', ''Nr_frag_direct_at_taxon'',
                  ''Rank_code'', ''NCBI_ID'', ''Scientific_name'', ''SampleID'', ''site'']
                 @ [NL]),
             ''k/sample_ids.csv'' \<mapsto> RegFile (''Sample_IDs'' @ [NL] @ ''s1'' @ [NL])),
        printed = [], invoked = []\<rparr>
   \<and> aggregate_kraken_results demo_pandas no_report_files ''k'' None (Some demo_metadata) 0
     = \<lparr>outcome_of = Returns (Some ''k/merged_kraken1.tsv''),
        files_after =
          no_report_files(''k/merged_kraken1.tsv'' \<mapsto>
               RegFile (py_join [TAB]
                 [''Perc_frag_cover'', ''Nr_frag_cover'', ''Nr_frag_direct_at_taxon'',
                  ''Rank_code'', ''NCBI_ID'', ''Scientific_name'', ''SampleID'', ''site'']
                 @ [NL]),
             ''k/sample_ids.csv'' \<mapsto> RegFile (''Sample_IDs'' @ [NL])),
        printed = [], invoked = []\<rparr>"
proof -
  have md: "resolve_metadata demo_pandas fs None (Some demo_metadata) = Inr demo_metadata" for fs
    by (simp add: resolve_metadata_def metadata_from_frame_def with_id_column_def
          demo_metadata_def)
  have paths: "os_path_join ''k'' ''merged_kraken1.tsv'' = ''k/merged_kraken1.tsv''"
    "os_path_join ''k'' ''sample_ids.csv'' = ''k/sample_ids.csv''"
    by (simp_all add: os_path_join_def)
  have cols: "columns demo_metadata = [''sample'', ''site'']"
    by (simp add: demo_metadata_def)
  have csv: "to_csv demo_pandas = (\<lambda>label vs. file_text (label # vs))"
    by (simp add: demo_pandas_def)
  have g_list: "os_listdir genus_only_files ''k'' = Inr [''s1_report.txt'', ''readme.md'']"
    by code_simp
  have g_free: "\<forall>es. genus_only_files (os_path_join ''k'' ''merged_kraken1.tsv'')
                  \<noteq> Some (Directory es)"
    "\<forall>es. genus_only_files (os_path_join ''k'' ''sample_ids.csv'') \<noteq> Some (Directory es)"
    by (simp_all add: paths genus_only_files_def)
  have g_rows: "report_rows genus_only_files ''k'' [''s1_report.txt'', ''readme.md'']
                  = [(''s1_report.txt'', genus_row)]"
    by code_simp
  have g_file: "\<forall>n \<in> set [''s1_report.txt'', ''readme.md'']. endswith n ''_report.txt'' \<longrightarrow>
                  (\<exists>c. genus_only_files (os_path_join ''k'' n) = Some (RegFile c))"
    by (simp add: os_path_join_def genus_only_files_def endswith_def)
  have g_len: "6 \<le> length (row_fields genus_row)"
    by code_simp
  have g_int: "py_int (row_fields genus_row ! 2) = Inr 10"
    by code_simp
  have g_none: "\<not> row_selected demo_metadata 0 (''s1_report.txt'', genus_row)"
    by code_simp
  have g_once: "count_list (columns demo_metadata) (hd (columns demo_metadata)) = 1"
    by (simp add: cols)
  have g_id: "py_join ''_'' (butlast (split_on (CHR ''_'') ''s1_report.txt'')) = ''s1''"
    by code_simp
  from empty_selection_succeeds_on_well_formed_reports[OF md g_list g_free, of 0]
       g_file g_len g_int g_none g_once
  have genus: "aggregate_kraken_results demo_pandas genus_only_files ''k'' None
                 (Some demo_metadata) 0
      = \<lparr>outcome_of = Returns (Some (os_path_join ''k'' ''merged_kraken1.tsv'')),
         files_after =
           genus_only_files(os_path_join ''k'' ''merged_kraken1.tsv'' \<mapsto>
                RegFile (py_join [TAB] (report_field_names @ tl (columns demo_metadata)) @ [NL]),
              os_path_join ''k'' ''sample_ids.csv'' \<mapsto>
                RegFile (to_csv demo_pandas ''Sample_IDs''
                   (map (\<lambda>r. py_join ''_'' (butlast (split_on (CHR ''_'') (fst r))))
                      [(''s1_report.txt'', genus_row)]))),
         printed = [], invoked = []\<rparr>"
    unfolding g_rows by auto
  have n_list: "os_listdir no_report_files ''k'' = Inr [''readme.md'']"
    by code_simp
  have n_free: "\<forall>es. no_report_files (os_path_join ''k'' ''merged_kraken1.tsv'')
                  \<noteq> Some (Directory es)"
    "\<forall>es. no_report_files (os_path_join ''k'' ''sample_ids.csv'') \<noteq> Some (Directory es)"
    by (simp_all add: paths no_report_files_def)
  have n_none: "\<forall>n \<in> set [''readme.md'']. \<not> endswith n ''_report.txt''"
    by code_simp
  from empty_selection_succeeds_on_well_formed_reports[OF md n_list n_free, of 0] n_none
  have none: "aggregate_kraken_results demo_pandas no_report_files ''k'' None
                 (Some demo_metadata) 0
      = \<lparr>outcome_of = Returns (Some (os_path_join ''k'' ''merged_kraken1.tsv'')),
         files_after =
           no_report_files(os_path_join ''k'' ''merged_kraken1.tsv'' \<mapsto>
                RegFile (py_join [TAB] (report_field_names @ tl (columns demo_metadata)) @ [NL]),
              os_path_join ''k'' ''sample_ids.csv'' \<mapsto>
                RegFile (to_csv demo_pandas ''Sample_IDs'' [])),
         printed = [], invoked = []\<rparr>"
    by blast
  show ?thesis
    unfolding genus none by (simp add: paths cols csv g_id file_text_def)
qed

text \<open>
  C10 as written fails. The metadata is a valid table and the only report holds a genus
  row followed by an empty line, so no row of it passes the filter: the first has rank
  \<^verbatim>\<open>G\<close>, the second has a single empty field. The scan stops at the empty line with
  an \<^verbatim>\<open>IndexError\<close>; the call prints it, returns \<^verbatim>\<open>None\<close> and writes no merged table.
\<close>

theorem blank_line_aborts_empty_selection:
  "resolve_metadata demo_pandas blank_line_files None (Some demo_metadata) = Inr demo_metadata
   \<and> os_listdir blank_line_files ''k'' = Inr [''s1_report.txt'']
   \<and> report_rows blank_line_files ''k'' [''s1_report.txt'']
       = [(''s1_report.txt'', genus_row), (''s1_report.txt'', [NL])]
   \<and> rank_code genus_row = ''G''
   \<and> row_fields [NL] = [[]]
   \<and> outcome_of (aggregate_kraken_results demo_pandas blank_line_files ''k'' None
                   (Some demo_metadata) 0) = Returns None
   \<and> printed (aggregate_kraken_results demo_pandas blank_line_files ''k'' None
                   (Some demo_metadata) 0)
       = [''Error aggregating Kraken results: list index out of range'']
   \<and> files_after (aggregate_kraken_results demo_pandas blank_line_files ''k'' None
                   (Some demo_metadata) 0) ''k/merged_kraken1.tsv'' = None
   \<and> files_after (aggregate_kraken_results demo_pandas blank_line_files ''k'' None
                   (Some demo_metadata) 0) ''k/sample_ids.csv'' = None"
  by code_simp

section \<open>Properties of \<^verbatim>\<open>process_sample\<close>\<close>

text \<open>
  C8. With \<^verbatim>\<open>use_precomputed_reports\<close> set, no wrapper is invoked and the file system
  is left as it was. The result is the path joined from the output directory and
  \<^verbatim>\<open><base_name>_report.txt\<close> when that path exists, and \<^verbatim>\<open>None\<close> when it does not.
  For an output directory that is not empty and does not end with a slash, and a sample
  name that does not start with one, the path reads
  \<^verbatim>\<open><output_dir>/<base_name>_report.txt\<close>.
\<close>

theorem precomputed_report_is_returned:
  assumes "use_precomputed_reports"
  shows "invoked (process_sample t forward reverse base_name bowtie2_index kraken_db
                    output_dir threads run_bowtie use_precomputed_reports fs) = []
       \<and> files_after (process_sample t forward reverse base_name bowtie2_index kraken_db
                    output_dir threads run_bowtie use_precomputed_reports fs) = fs
       \<and> (os_path_exists fs (os_path_join output_dir (base_name @ ''_report.txt'')) \<longrightarrow>
            outcome_of (process_sample t forward reverse base_name bowtie2_index kraken_db
                    output_dir threads run_bowtie use_precomputed_reports fs)
              = Returns (Some (os_path_join output_dir (base_name @ ''_report.txt'')))
            \<and> printed (process_sample t forward reverse base_name bowtie2_index kraken_db
                    output_dir threads run_bowtie use_precomputed_reports fs) = [])
       \<and> (\<not> os_path_exists fs (os_path_join output_dir (base_name @ ''_report.txt'')) \<longrightarrow>
            outcome_of (process_sample t forward reverse base_name bowtie2_index kraken_db
                    output_dir threads run_bowtie use_precomputed_reports fs)
              = Returns None)
       \<and> (output_dir \<noteq> [] \<and> last output_dir \<noteq> CHR ''/''
              \<and> (base_name = [] \<or> hd base_name \<noteq> CHR ''/'') \<longrightarrow>
            os_path_join output_dir (base_name @ ''_report.txt'')
              = output_dir @ ''/'' @ base_name @ ''_report.txt'')"
proof -
  have "output_dir \<noteq> [] \<and> last output_dir \<noteq> CHR ''/''
              \<and> (base_name = [] \<or> hd base_name \<noteq> CHR ''/'') \<longrightarrow>
            os_path_join output_dir (base_name @ ''_report.txt'')
              = output_dir @ ''/'' @ base_name @ ''_report.txt''"
    by (cases base_name) (auto simp: os_path_join_def)
  with assms show ?thesis
    by (simp add: process_sample_def process_sample_with_def process_sample_body_def Let_def)
qed

theorem precomputed_report_is_returned_witness:
  "outcome_of (process_sample failing_tools ''a_R1.fastq'' ''a_R2.fastq'' ''s1'' ''host'' ''db''
                 ''k'' 8 True True demo_files) = Returns (Some ''k/s1_report.txt'')
   \<and> invoked (process_sample failing_tools ''a_R1.fastq'' ''a_R2.fastq'' ''s1'' ''host'' ''db''
                 ''k'' 8 True True demo_files) = []
   \<and> outcome_of (process_sample failing_tools ''a_R1.fastq'' ''a_R2.fastq'' ''s7'' ''host'' ''db''
                 ''k'' 8 True True demo_files) = Returns None"
proof -
  have here: "os_path_exists demo_files (os_path_join ''k'' (''s1'' @ ''_report.txt''))"
    by (simp add: os_path_exists_def os_path_join_def demo_files_def)
  have missing: "\<not> os_path_exists demo_files (os_path_join ''k'' (''s7'' @ ''_report.txt''))"
    by (simp add: os_path_exists_def os_path_join_def demo_files_def)
  have path: "os_path_join ''k'' (''s1'' @ ''_report.txt'') = ''k/s1_report.txt''"
    by (simp add: os_path_join_def)
  from precomputed_report_is_returned[of True failing_tools "''a_R1.fastq''" "''a_R2.fastq''" "''s1''"
         "''host''" "''db''" "''k''" 8 True demo_files]
       precomputed_report_is_returned[of True failing_tools "''a_R1.fastq''" "''a_R2.fastq''" "''s7''"
         "''host''" "''db''" "''k''" 8 True demo_files]
       here missing path
  show ?thesis by simp
qed

lemma step_raises_iff:
  "step_raises t forward reverse base_name bowtie2_index kraken_db output_dir threads
       run_bowtie use_precomputed_reports fs e
   \<longleftrightarrow> fst (process_sample_body t forward reverse base_name bowtie2_index kraken_db
              output_dir threads run_bowtie use_precomputed_reports fs) = Inl e"
  unfolding step_raises_def process_sample_body_def os_path_exists_def Let_def
  by (auto split: prod.splits sum.splits)

text \<open>
  C9, as the code has it. The handler is \<^verbatim>\<open>except Exception\<close>, and it calls \<^verbatim>\<open>print\<close>
  without a guard. When a step raises an exception of a subclass of \<^verbatim>\<open>Exception\<close>,
  the line handed to \<^verbatim>\<open>print\<close> is the sample name and the message of the exception;
  if \<^verbatim>\<open>print\<close> writes it, the call returns \<^verbatim>\<open>None\<close>, and if \<^verbatim>\<open>print\<close> raises, the call
  raises what \<^verbatim>\<open>print\<close> raised. When a step raises an exception that is no
  \<^verbatim>\<open>Exception\<close>, the call raises it and prints nothing. When no step raises, the call
  returns a path and prints nothing. So the call raises in these two cases only.
\<close>

theorem step_exceptions_are_printed_and_become_None:
  "(\<forall>e. step_raises t forward reverse base_name bowtie2_index kraken_db output_dir threads
            run_bowtie use_precomputed_reports fs e \<longrightarrow>
      (is_Exception (exn_class e) \<longrightarrow>
         (print_line (''Error processing sample '' @ base_name @ '': '' @ exn_str e) = None \<longrightarrow>
            outcome_of (process_sample_with print_line t forward reverse base_name
                          bowtie2_index kraken_db output_dir threads run_bowtie
                          use_precomputed_reports fs) = Returns None
            \<and> printed (process_sample_with print_line t forward reverse base_name
                          bowtie2_index kraken_db output_dir threads run_bowtie
                          use_precomputed_reports fs)
                = [''Error processing sample '' @ base_name @ '': '' @ exn_str e])
         \<and> (\<forall>print_error.
              print_line (''Error processing sample '' @ base_name @ '': '' @ exn_str e)
                = Some print_error \<longrightarrow>
              outcome_of (process_sample_with print_line t forward reverse base_name
                            bowtie2_index kraken_db output_dir threads run_bowtie
                            use_precomputed_reports fs) = Raises print_error
              \<and> printed (process_sample_with print_line t forward reverse base_name
                            bowtie2_index kraken_db output_dir threads run_bowtie
                            use_precomputed_reports fs) = []))
      \<and> (\<not> is_Exception (exn_class e) \<longrightarrow>
           outcome_of (process_sample_with print_line t forward reverse base_name
                         bowtie2_index kraken_db output_dir threads run_bowtie
                         use_precomputed_reports fs) = Raises e
           \<and> printed (process_sample_with print_line t forward reverse base_name
                         bowtie2_index kraken_db output_dir threads run_bowtie
                         use_precomputed_reports fs) = []))
   \<and> ((\<forall>e. \<not> step_raises t forward reverse base_name bowtie2_index kraken_db output_dir
                 threads run_bowtie use_precomputed_reports fs e) \<longrightarrow>
        (\<exists>kraken_report.
           outcome_of (process_sample_with print_line t forward reverse base_name
                         bowtie2_index kraken_db output_dir threads run_bowtie
                         use_precomputed_reports fs) = Returns (Some kraken_report))
        \<and> printed (process_sample_with print_line t forward reverse base_name
                      bowtie2_index kraken_db output_dir threads run_bowtie
                      use_precomputed_reports fs) = [])"
proof -
  obtain r fs' called where body:
    "process_sample_body t forward reverse base_name bowtie2_index kraken_db
       output_dir threads run_bowtie use_precomputed_reports fs = (r, fs', called)"
    by (cases "process_sample_body t forward reverse base_name bowtie2_index kraken_db
       output_dir threads run_bowtie use_precomputed_reports fs") auto
  show ?thesis
  proof (cases r)
    case (Inr path)
    with body show ?thesis
      by (simp add: step_raises_iff process_sample_with_def)
  next
    case (Inl e)
    with body show ?thesis
      by (auto simp: step_raises_iff process_sample_with_def)
  qed
qed

theorem step_exceptions_are_printed_and_become_None_witness:
  "outcome_of (process_sample_with (\<lambda>line. None) failing_tools ''a_R1.fastq'' ''a_R2.fastq''
                 ''s1'' ''host'' ''db'' ''k'' 8 True False demo_files) = Returns None
   \<and> printed (process_sample_with (\<lambda>line. None) failing_tools ''a_R1.fastq'' ''a_R2.fastq''
                 ''s1'' ''host'' ''db'' ''k'' 8 True False demo_files)
       = [''Error processing sample s1: kraken2 exited with status 2'']
   \<and> outcome_of (process_sample_with broken_console failing_tools ''a_R1.fastq'' ''a_R2.fastq''
                 ''s1'' ''host'' ''db'' ''k'' 8 True False demo_files)
       = Raises (PyExn OtherException ''codec cannot encode character'')
   \<and> outcome_of (process_sample_with broken_console working_tools ''a_R1.fastq'' ''a_R2.fastq''
                 ''s1'' ''host'' ''db'' ''k'' 8 True False demo_files)
       = Returns (Some ''k/s1_report.txt'')"
proof -
  have raised: "step_raises failing_tools ''a_R1.fastq'' ''a_R2.fastq'' ''s1'' ''host'' ''db''
                  ''k'' 8 True False demo_files (PyExn OtherException ''kraken2 exited with status 2'')"
    by (simp add: step_raises_def failing_tools_def working_tools_def)
  have quiet: "\<forall>e. \<not> step_raises working_tools ''a_R1.fastq'' ''a_R2.fastq'' ''s1'' ''host'' ''db''
                  ''k'' 8 True False demo_files e"
    by (simp add: step_raises_def working_tools_def)
  have caught: "is_Exception (exn_class (PyExn OtherException ''kraken2 exited with status 2''))"
    by simp
  have line: "''Error processing sample '' @ ''s1'' @ '': ''
                @ exn_str (PyExn OtherException ''kraken2 exited with status 2'')
              = ''Error processing sample s1: kraken2 exited with status 2''"
    by simp
  have broken: "broken_console l = Some (PyExn OtherException ''codec cannot encode character'')"
    for l
    by (simp add: broken_console_def)
  from step_exceptions_are_printed_and_become_None[of failing_tools "''a_R1.fastq''"
         "''a_R2.fastq''" "''s1''" "''host''" "''db''" "''k''" 8 True False demo_files
         "\<lambda>line. None"] raised caught
  have ok: "outcome_of (process_sample_with (\<lambda>line. None) failing_tools ''a_R1.fastq''
                 ''a_R2.fastq'' ''s1'' ''host'' ''db'' ''k'' 8 True False demo_files) = Returns None
     \<and> printed (process_sample_with (\<lambda>line. None) failing_tools ''a_R1.fastq'' ''a_R2.fastq''
                 ''s1'' ''host'' ''db'' ''k'' 8 True False demo_files)
       = [''Error processing sample '' @ ''s1'' @ '': ''
                @ exn_str (PyExn OtherException ''kraken2 exited with status 2'')]"
    by blast
  from step_exceptions_are_printed_and_become_None[of failing_tools "''a_R1.fastq''"
         "''a_R2.fastq''" "''s1''" "''host''" "''db''" "''k''" 8 True False demo_files
         broken_console] raised caught broken
  have bad: "outcome_of (process_sample_with broken_console failing_tools ''a_R1.fastq''
                 ''a_R2.fastq'' ''s1'' ''host'' ''db'' ''k'' 8 True False demo_files)
       = Raises (PyExn OtherException ''codec cannot encode character'')"
    by blast
  from step_exceptions_are_printed_and_become_None[of working_tools "''a_R1.fastq''"
         "''a_R2.fastq''" "''s1''" "''host''" "''db''" "''k''" 8 True False demo_files
         broken_console] quiet
  obtain kraken_report where
    "outcome_of (process_sample_with broken_console working_tools ''a_R1.fastq''
                 ''a_R2.fastq'' ''s1'' ''host'' ''db'' ''k'' 8 True False demo_files)
       = Returns (Some kraken_report)"
    by blast
  then have fine: "outcome_of (process_sample_with broken_console working_tools ''a_R1.fastq''
                 ''a_R2.fastq'' ''s1'' ''host'' ''db'' ''k'' 8 True False demo_files)
       = Returns (Some ''k/s1_report.txt'')"
    by (simp add: process_sample_with_def process_sample_body_def working_tools_def
          os_path_join_def)
  from ok bad fine show ?thesis
    unfolding line by simp
qed

text \<open>
  C9 as written fails: an interrupt from the keyboard while the trimmer runs is
  no \<^verbatim>\<open>Exception\<close>, and it leaves \<^verbatim>\<open>process_sample\<close> as it came.
\<close>

theorem keyboard_interrupt_is_not_caught:
  "outcome_of (process_sample interrupted_tools ''a_R1.fastq'' ''a_R2.fastq'' ''s1'' ''host''
                 ''db'' ''k'' 8 True False demo_files) = Raises (PyExn KeyboardInterrupt [])
   \<and> printed (process_sample interrupted_tools ''a_R1.fastq'' ''a_R2.fastq'' ''s1'' ''host''
                 ''db'' ''k'' 8 True False demo_files) = []"
  by (simp add: process_sample_def process_sample_with_def process_sample_body_def
        interrupted_tools_def working_tools_def)

end
